theory Spec2Isabelle
  imports Complex_Main "HOL-Library.Multiset" "HOL-Library.Char_ord" "HOL-Library.List_Lexorder"
begin

section \<open>JSON values and Python's \<open>json.dumps\<close>\<close>

text \<open>
  A tool's \<open>inputSchema\<close> is a parsed JSON document: a Python value built from \<open>None\<close>,
  \<open>bool\<close>, \<open>int\<close>, \<open>float\<close>, \<open>str\<close>, \<open>list\<close> and \<open>dict\<close> with string keys.
  A \<open>dict\<close> is an association list in insertion order; Python keeps the keys of a dict
  distinct, which \<open>wf_json\<close> states. Floats are kept abstract (type \<open>'f\<close>); their
  rendering \<open>float.__repr__\<close> is a parameter \<open>fr\<close> of the serializer. A \<open>string\<close>
  stands for a Python \<open>str\<close> whose code points are below 256, one \<open>char\<close> per code point.
\<close>

datatype 'f json =
    JNull
  | JBool bool
  | JInt int
  | JFloat 'f
  | JStr string
  | JArr "'f json list"
  | JObj "(string \<times> 'f json) list"

primrec wf_json :: "'f json \<Rightarrow> bool" where
  "wf_json JNull = True"
| "wf_json (JBool b) = True"
| "wf_json (JInt i) = True"
| "wf_json (JFloat x) = True"
| "wf_json (JStr s) = True"
| "wf_json (JArr xs) = list_all wf_json xs"
| "wf_json (JObj kvs) = (distinct (map fst kvs) \<and> list_all (pred_prod (\<lambda>k. True) wf_json) kvs)"

text \<open>\<open>sep.join(parts)\<close>\<close>

fun join :: "string \<Rightarrow> string list \<Rightarrow> string" where
  "join sep [] = []"
| "join sep [x] = x"
| "join sep (x # y # ys) = x @ sep @ join sep (y # ys)"

text \<open>\<open>str(i)\<close> for an integer: decimal digits, a leading minus sign when negative.\<close>

definition digit_char :: "nat \<Rightarrow> char" where
  "digit_char d = ''0123456789abcdef'' ! d"

fun str_nat :: "nat \<Rightarrow> string" where
  "str_nat n = (if n < 10 then [digit_char n] else str_nat (n div 10) @ [digit_char (n mod 10)])"

declare str_nat.simps [simp del]

definition str_int :: "int \<Rightarrow> string" where
  "str_int i = (if i < 0 then CHR ''-'' # str_nat (nat (- i)) else str_nat (nat i))"

text \<open>
  \<open>json.encoder.py_encode_basestring_ascii\<close> (the default \<open>ensure_ascii=True\<close>): the
  backslash, the double quote and every character outside \<open>' '..'~'\<close> are escaped; the
  five short escapes come first, any other such character becomes \<open>\uXXXX\<close>.
\<close>

definition hex4 :: "nat \<Rightarrow> string" where
  "hex4 n = [digit_char (n div 4096 mod 16), digit_char (n div 256 mod 16),
             digit_char (n div 16 mod 16), digit_char (n mod 16)]"

definition escape_char :: "char \<Rightarrow> string" where
  "escape_char c =
     (if c = CHR 0x5C then [CHR 0x5C, CHR 0x5C]
      else if c = CHR 0x22 then [CHR 0x5C, CHR 0x22]
      else if c = CHR 0x08 then [CHR 0x5C, CHR ''b'']
      else if c = CHR 0x0C then [CHR 0x5C, CHR ''f'']
      else if c = CHR 0x0A then [CHR 0x5C, CHR ''n'']
      else if c = CHR 0x0D then [CHR 0x5C, CHR ''r'']
      else if c = CHR 0x09 then [CHR 0x5C, CHR ''t'']
      else if (of_char c :: nat) < 0x20 \<or> (of_char c :: nat) > 0x7E
        then [CHR 0x5C, CHR ''u''] @ hex4 (of_char c)
      else [c])"

definition encode_basestring_ascii :: "string \<Rightarrow> string" where
  "encode_basestring_ascii s = [CHR 0x22] @ concat (map escape_char s) @ [CHR 0x22]"

lemma size_arr_elem: "x \<in> set xs \<Longrightarrow> size x < size (JArr xs)"
  by (induction xs) auto

lemma size_obj_item: "kv \<in> set kvs \<Longrightarrow> size (snd kv) < size (JObj kvs)"
  by (induction kvs) auto

text \<open>
  \<open>json.dumps(o, sort_keys=sk)\<close> with the default separators \<open>', '\<close> and \<open>': '\<close>.
  For a dict the encoder takes \<open>sorted(dct.items())\<close> when \<open>sort_keys\<close> is set and
  \<open>dct.items()\<close> otherwise, then writes each key and value. The keys are strings and
  distinct, so sorting the items is a sort by key, in code-point order.
\<close>

function (sequential) dumps :: "('f \<Rightarrow> string) \<Rightarrow> bool \<Rightarrow> 'f json \<Rightarrow> string" where
  "dumps fr sk JNull = ''null''"
| "dumps fr sk (JBool b) = (if b then ''true'' else ''false'')"
| "dumps fr sk (JInt i) = str_int i"
| "dumps fr sk (JFloat x) = fr x"
| "dumps fr sk (JStr s) = encode_basestring_ascii s"
| "dumps fr sk (JArr xs) = ''['' @ join '', '' (map (dumps fr sk) xs) @ '']''"
| "dumps fr sk (JObj kvs) =
     ''{'' @ join '', ''
        (map (\<lambda>kv. encode_basestring_ascii (fst kv) @ '': '' @ dumps fr sk (snd kv))
             (if sk then sort_key fst kvs else kvs)) @ ''}''"
  by pat_completeness auto
termination
  apply (relation "measure (\<lambda>(fr, sk, j). size j)")
    apply simp
   apply (simp add: size_arr_elem del: json.size)
  apply (simp add: size_obj_item del: json.size split: if_splits)
  done

section \<open>The manifest fingerprint (db.py)\<close>

text \<open>\<open>s.encode('utf-8')\<close> on code points below 256: one byte below 128, two bytes above.\<close>

definition utf8_char :: "char \<Rightarrow> string" where
  "utf8_char c =
     (if (of_char c :: nat) < 128 then [c]
      else [char_of (192 + (of_char c :: nat) div 64), char_of (128 + (of_char c :: nat) mod 64)])"

definition encode_utf8 :: "string \<Rightarrow> string" where
  "encode_utf8 s = concat (map utf8_char s)"

text \<open>
  \<open>generate_manifest_hash\<close>. The digest \<open>hashlib.sha256(b).hexdigest()\<close> is library code
  outside the repository; it is the parameter \<open>sha256_hexdigest\<close>, from bytes to hex text.
\<close>

definition generate_manifest_hash ::
  "(string \<Rightarrow> string) \<Rightarrow> ('f \<Rightarrow> string) \<Rightarrow> string \<Rightarrow> string \<Rightarrow> 'f json \<Rightarrow> string" where
  "generate_manifest_hash sha256_hexdigest fr server_name tool_name schema =
     (let manifest_str = server_name @ '':'' @ tool_name @ '':'' @ dumps fr True schema
      in sha256_hexdigest (encode_utf8 manifest_str))"

text \<open>
  The spec's words, for comparison with the code: the canonical schema is the schema with
  the keys of every object put in a fixed order, and \<open>json_perm\<close> relates two schemas that
  differ only in the insertion order of the keys of their objects, at any depth.
\<close>

primrec canonical_schema :: "'f json \<Rightarrow> 'f json" where
  "canonical_schema JNull = JNull"
| "canonical_schema (JBool b) = JBool b"
| "canonical_schema (JInt i) = JInt i"
| "canonical_schema (JFloat x) = JFloat x"
| "canonical_schema (JStr s) = JStr s"
| "canonical_schema (JArr xs) = JArr (map canonical_schema xs)"
| "canonical_schema (JObj kvs) = JObj (sort_key fst (map (map_prod id canonical_schema) kvs))"

inductive json_perm :: "'f json \<Rightarrow> 'f json \<Rightarrow> bool" where
  same: "json_perm j j"
| arr: "list_all2 json_perm xs ys \<Longrightarrow> json_perm (JArr xs) (JArr ys)"
| obj: "list_all2 (\<lambda>a b. fst a = fst b \<and> json_perm (snd a) (snd b)) kvs kvs' \<Longrightarrow>
        mset kvs' = mset kvs'' \<Longrightarrow> json_perm (JObj kvs) (JObj kvs'')"

section \<open>Errors\<close>

text \<open>
  Every exception the modelled code can raise or receive is a value. All of them are
  subclasses of Python's \<open>Exception\<close>, so an \<open>except Exception\<close> handler catches each;
  \<open>Exception\<close> itself stands for an exception raised by a library (the database, the
  HTTP client, the provider session). The text is what \<open>str(e)\<close> gives.
\<close>

datatype py_error =
    TypeError string
  | AttributeError string
  | ValueError string
  | RuntimeError string
  | NameError string
  | ImportError string
  | HTTPException nat string
  | Exception string

fun str_error :: "py_error \<Rightarrow> string" where
  "str_error (TypeError m) = m"
| "str_error (AttributeError m) = m"
| "str_error (ValueError m) = m"
| "str_error (RuntimeError m) = m"
| "str_error (NameError m) = m"
| "str_error (ImportError m) = m"
| "str_error (HTTPException code detail) = detail"
| "str_error (Exception m) = m"

section \<open>Schema translation (atp\_translator.py)\<close>

text \<open>Python's name of the type of a JSON value, as it appears in error messages.\<close>

fun type_name :: "'f json \<Rightarrow> string" where
  "type_name JNull = ''NoneType''"
| "type_name (JBool b) = ''bool''"
| "type_name (JInt i) = ''int''"
| "type_name (JFloat x) = ''float''"
| "type_name (JStr s) = ''str''"
| "type_name (JArr xs) = ''list''"
| "type_name (JObj kvs) = ''dict''"

definition quoted :: "string \<Rightarrow> string" where
  "quoted s = [CHR 0x27] @ s @ [CHR 0x27]"

text \<open>\<open>d.get(key, dflt)\<close> on a dict, and \<open>d[key] = value\<close> (a present key keeps its
  place, a new key goes to the end).\<close>

definition dict_get :: "(string \<times> 'v) list \<Rightarrow> string \<Rightarrow> 'v \<Rightarrow> 'v" where
  "dict_get d key dflt = (case map_of d key of None \<Rightarrow> dflt | Some v \<Rightarrow> v)"

fun dict_set :: "string \<Rightarrow> 'v \<Rightarrow> (string \<times> 'v) list \<Rightarrow> (string \<times> 'v) list" where
  "dict_set key v [] = [(key, v)]"
| "dict_set key v (p # ps) = (if fst p = key then (key, v) # ps else p # dict_set key v ps)"

text \<open>
  \<open>obj.get(key, dflt)\<close> on a value that need not be a dict: only a dict has the
  method, any other JSON value raises \<open>AttributeError\<close>.
\<close>

definition py_get :: "'f json \<Rightarrow> string \<Rightarrow> 'f json \<Rightarrow> py_error + 'f json" where
  "py_get obj key dflt =
     (case obj of
        JObj kvs \<Rightarrow> Inr (dict_get kvs key dflt)
      | _ \<Rightarrow> Inl (AttributeError (quoted (type_name obj) @ '' object has no attribute ''
                                    @ quoted ''get'')))"

text \<open>The semantic types the translator maps to, \<open>Any\<close> being the open type.\<close>

datatype py_type = PyStr | PyInt | PyFloat | PyBool | PyList | PyDict | PyAny

definition type_mapping :: "(string \<times> py_type) list" where
  "type_mapping =
     [(''string'', PyStr), (''integer'', PyInt), (''number'', PyFloat),
      (''boolean'', PyBool), (''array'', PyList), (''object'', PyDict)]"

text \<open>
  \<open>type_mapping.get(schema_type, Any)\<close>: the key is hashed first, and a list or a dict is
  unhashable (\<open>TypeError\<close>); a key of any other type than \<open>str\<close> is not in the table.
\<close>

definition type_mapping_get :: "'f json \<Rightarrow> py_error + py_type" where
  "type_mapping_get schema_type =
     (case schema_type of
        JStr s \<Rightarrow> Inr (dict_get type_mapping s PyAny)
      | JArr xs \<Rightarrow> Inl (TypeError (''unhashable type: '' @ quoted ''list''))
      | JObj kvs \<Rightarrow> Inl (TypeError (''unhashable type: '' @ quoted ''dict''))
      | _ \<Rightarrow> Inr PyAny)"

definition json_schema_to_pydantic_type :: "'f json \<Rightarrow> py_error + py_type" where
  "json_schema_to_pydantic_type schema =
     (case py_get schema ''type'' (JStr ''string'') of
        Inl e \<Rightarrow> Inl e
      | Inr schema_type \<Rightarrow> type_mapping_get schema_type)"

text \<open>\<open>needle in haystack\<close> for two strings: \<open>needle\<close> occurs as a contiguous part.\<close>

fun is_prefix :: "string \<Rightarrow> string \<Rightarrow> bool" where
  "is_prefix [] ys = True"
| "is_prefix (x # xs) [] = False"
| "is_prefix (x # xs) (y # ys) = (x = y \<and> is_prefix xs ys)"

fun str_contains :: "string \<Rightarrow> string \<Rightarrow> bool" where
  "str_contains needle [] = (needle = [])"
| "str_contains needle (y # ys) = (is_prefix needle (y # ys) \<or> str_contains needle ys)"

text \<open>
  \<open>field_name in required_fields\<close>, where \<open>required_fields\<close> is whatever the schema holds
  under \<open>required\<close>: membership in a list, key membership in a dict, substring test on a
  string, \<open>TypeError\<close> on a value that is not a container.
\<close>

definition py_in :: "string \<Rightarrow> 'f json \<Rightarrow> py_error + bool" where
  "py_in field_name required_fields =
     (case required_fields of
        JArr xs \<Rightarrow> Inr (JStr field_name \<in> set xs)
      | JObj kvs \<Rightarrow> Inr (field_name \<in> set (map fst kvs))
      | JStr s \<Rightarrow> Inr (str_contains field_name s)
      | _ \<Rightarrow> Inl (TypeError (''argument of type '' @ quoted (type_name required_fields)
                               @ '' is not iterable'')))"

text \<open>
  The typed contract: what \<open>_generate_pydantic_model\<close> hands to \<open>create_model\<close>. A required
  field is \<open>(field_type, Field(..., description=d))\<close>, an optional one
  \<open>(Optional[field_type], Field(default=None, description=d))\<close>.
\<close>

datatype annotation = Plain py_type | Optional py_type

datatype field_default = Ellipsis | Default_None

record 'f field_def =
  annotation :: annotation
  default_value :: field_default
  field_description :: "'f json"

record 'f pydantic_model =
  model_name :: string
  model_fields :: "(string \<times> 'f field_def) list"

text \<open>The body of the loop over \<open>properties.items()\<close>, with the dict \<open>fields\<close> it fills (here \<open>fields'\<close>).\<close>

fun generate_fields ::
  "'f json \<Rightarrow> (string \<times> 'f json) list \<Rightarrow> (string \<times> 'f field_def) list
     \<Rightarrow> py_error + (string \<times> 'f field_def) list" where
  "generate_fields required_fields [] fields' = Inr fields'"
| "generate_fields required_fields ((field_name, field_schema) # items) fields' =
     (case json_schema_to_pydantic_type field_schema of
        Inl e \<Rightarrow> Inl e
      | Inr field_type \<Rightarrow>
          (case py_get field_schema ''description'' (JStr []) of
             Inl e \<Rightarrow> Inl e
           | Inr description \<Rightarrow>
               (case py_in field_name required_fields of
                  Inl e \<Rightarrow> Inl e
                | Inr True \<Rightarrow>
                    generate_fields required_fields items
                      (dict_set field_name
                         \<lparr>annotation = Plain field_type, default_value = Ellipsis,
                          field_description = description\<rparr> fields')
                | Inr False \<Rightarrow>
                    generate_fields required_fields items
                      (dict_set field_name
                         \<lparr>annotation = Optional field_type, default_value = Default_None,
                          field_description = description\<rparr> fields'))))"

text \<open>
  \<open>_generate_pydantic_model\<close>. \<open>properties.items()\<close> needs a dict and raises
  \<open>AttributeError\<close> on any other value. Two library functions are parameters:
  \<open>str.capitalize\<close>, and pydantic's \<open>create_model(model_name, **fields)\<close>, which either
  raises (it refuses some field names, a leading underscore for one) or builds the model
  class with that name and those fields; \<open>create_model_raises\<close> gives the exception, if
  any.
\<close>

definition generate_pydantic_model ::
  "(string \<Rightarrow> (string \<times> 'f field_def) list \<Rightarrow> py_error option) \<Rightarrow> (string \<Rightarrow> string)
     \<Rightarrow> string \<Rightarrow> 'f json \<Rightarrow> py_error + 'f pydantic_model" where
  "generate_pydantic_model create_model_raises capitalize tool_name input_schema =
     (case py_get input_schema ''properties'' (JObj []) of
        Inl e \<Rightarrow> Inl e
      | Inr properties \<Rightarrow>
          (case py_get input_schema ''required'' (JArr []) of
             Inl e \<Rightarrow> Inl e
           | Inr required_fields \<Rightarrow>
               (case properties of
                  JObj items \<Rightarrow>
                    (case generate_fields required_fields items [] of
                       Inl e \<Rightarrow> Inl e
                     | Inr fields' \<Rightarrow>
                         (let model_name = capitalize tool_name @ ''Input''
                          in case create_model_raises model_name fields' of
                               Some e \<Rightarrow> Inl e
                             | None \<Rightarrow>
                                 Inr \<lparr>model_name = model_name, model_fields = fields'\<rparr>))
                | _ \<Rightarrow> Inl (AttributeError (quoted (type_name properties)
                           @ '' object has no attribute '' @ quoted ''items'')))))"

text \<open>
  The reading of a property's schema that the translation gives when nothing raises: the
  declared type through the table (\<open>str\<close> when no type is declared, \<open>Any\<close> when the
  declared type is not in the table), the description (empty when there is none), and
  the contract field made of them. \<open>hashable_type\<close> holds of a property schema that is a
  dict and whose declared type, if any, is not a list or a dict.
\<close>

definition hashable_type :: "'f json \<Rightarrow> bool" where
  "hashable_type field_schema =
     (case field_schema of
        JObj kvs \<Rightarrow> (case map_of kvs ''type'' of
                       Some (JArr xs) \<Rightarrow> False | Some (JObj d) \<Rightarrow> False | _ \<Rightarrow> True)
      | _ \<Rightarrow> False)"

definition declared_type :: "'f json \<Rightarrow> py_type" where
  "declared_type field_schema =
     (case field_schema of
        JObj kvs \<Rightarrow> (case map_of kvs ''type'' of
                       None \<Rightarrow> PyStr
                     | Some (JStr s) \<Rightarrow> (case map_of type_mapping s of None \<Rightarrow> PyAny | Some t \<Rightarrow> t)
                     | Some other \<Rightarrow> PyAny)
      | _ \<Rightarrow> PyAny)"

definition declared_description :: "'f json \<Rightarrow> 'f json" where
  "declared_description field_schema =
     (case field_schema of
        JObj kvs \<Rightarrow> (case map_of kvs ''description'' of None \<Rightarrow> JStr [] | Some d \<Rightarrow> d)
      | _ \<Rightarrow> JStr [])"

definition contract_field :: "'f json list \<Rightarrow> string \<times> 'f json \<Rightarrow> string \<times> 'f field_def" where
  "contract_field required item =
     (fst item,
      if JStr (fst item) \<in> set required
      then \<lparr>annotation = Plain (declared_type (snd item)), default_value = Ellipsis,
            field_description = declared_description (snd item)\<rparr>
      else \<lparr>annotation = Optional (declared_type (snd item)), default_value = Default_None,
            field_description = declared_description (snd item)\<rparr>)"

definition nullable_schema :: "string json" where
  "nullable_schema =
     JObj [(''properties'',
            JObj [(''x'', JObj [(''type'', JArr [JStr ''string'', JStr ''null''])])])]"

section \<open>Library functions taken as parameters\<close>

text \<open>
  Pure functions of libraries outside the repository: the SHA-256 hex digest, the
  \<open>repr\<close> of a float, \<open>str.capitalize\<close>, pydantic's \<open>create_model\<close> (the exception it
  raises, if any) and \<open>schema_json()\<close> of a generated model, and two parts of the \<open>repr\<close>
  of a content item of a provider response that depend on the version of the \<open>mcp\<close>
  package: for an item of type \<open>text\<close> the fields after \<open>text\<close> (such as
  \<open>, annotations=None\<close>), for any other item its whole \<open>repr\<close>.
\<close>

record content_item =
  content_type :: string
  content_text :: string

record call_tool_result =
  isError :: bool
  content :: "content_item list"

record 'f lib =
  sha256_hexdigest :: "string \<Rightarrow> string"
  float_repr :: "'f \<Rightarrow> string"
  capitalize :: "string \<Rightarrow> string"
  create_model_raises :: "string \<Rightarrow> (string \<times> 'f field_def) list \<Rightarrow> py_error option"
  schema_json :: "'f pydantic_model \<Rightarrow> string"
  repr_text_rest :: "content_item \<Rightarrow> string"
  repr_non_text :: "content_item \<Rightarrow> string"

text \<open>
  \<open>repr(s)\<close> of a Python string: between single quotes, or between double quotes when
  the string has a single quote and no double quote; the backslash and the chosen quote
  are escaped, tab, newline and carriage return get their short escapes, and every other
  character that is not printable becomes a backslash, \<open>x\<close> and two hex digits. Below 256 the characters that are not
  printable are those below \<open>0x20\<close>, from \<open>0x7F\<close> to \<open>0xA0\<close>, and \<open>0xAD\<close>.
\<close>

definition hex2 :: "nat \<Rightarrow> string" where
  "hex2 n = [digit_char (n div 16 mod 16), digit_char (n mod 16)]"

definition repr_quote :: "string \<Rightarrow> char" where
  "repr_quote s = (if CHR 0x27 \<in> set s \<and> CHR 0x22 \<notin> set s then CHR 0x22 else CHR 0x27)"

definition repr_char :: "char \<Rightarrow> char \<Rightarrow> string" where
  "repr_char quote c =
     (if c = quote \<or> c = CHR 0x5C then [CHR 0x5C, c]
      else if c = CHR 0x09 then [CHR 0x5C, CHR ''t'']
      else if c = CHR 0x0A then [CHR 0x5C, CHR ''n'']
      else if c = CHR 0x0D then [CHR 0x5C, CHR ''r'']
      else if (of_char c :: nat) < 0x20 \<or> (of_char c :: nat) = 0x7F
        then [CHR 0x5C, CHR ''x''] @ hex2 (of_char c)
      else if (of_char c :: nat) < 0x7F then [c]
      else if (of_char c :: nat) \<le> 0xA0 \<or> (of_char c :: nat) = 0xAD
        then [CHR 0x5C, CHR ''x''] @ hex2 (of_char c)
      else [c])"

definition py_repr :: "string \<Rightarrow> string" where
  "py_repr s = [repr_quote s] @ concat (map (repr_char (repr_quote s)) s) @ [repr_quote s]"

text \<open>
  \<open>str(result.content)\<close>, which the f-string of the error branch takes: the \<open>repr\<close> of
  each item, separated by \<open>', '\<close>, between brackets. An item of type \<open>text\<close> is a
  \<open>TextContent\<close>, whose \<open>repr\<close> lists its fields in order: \<open>type\<close>, \<open>text\<close>, the rest.
\<close>

definition repr_content :: "'f lib \<Rightarrow> content_item \<Rightarrow> string" where
  "repr_content lib c =
     (if content_type c = ''text''
      then ''TextContent(type='' @ py_repr ''text'' @ '', text='' @ py_repr (content_text c)
             @ repr_text_rest lib c @ '')''
      else repr_non_text lib c)"

definition str_content :: "'f lib \<Rightarrow> content_item list \<Rightarrow> string" where
  "str_content lib cs = ''['' @ join '', '' (map (repr_content lib) cs) @ '']''"

section \<open>The registry and the log store (db.py)\<close>

text \<open>
  The two tables, each a list of rows in storage order. A UUID and a timestamp are
  natural numbers handed in by the environment. \<open>reg_id\<close> and \<open>log_id\<close> are the columns
  \<open>id\<close> of the two tables.
\<close>

record 'f ATPToolRegistry =
  reg_id :: nat
  mcp_server_name :: string
  tool_name :: string
  manifest_hash :: string
  raw_mcp_schema :: "'f json"
  pydantic_schema_code :: "string option"
  success_rate :: real
  last_anomaly_log :: "string option"
  created_at :: nat

record 'f ATPExecutionLog =
  log_id :: nat
  tool_id :: nat
  agent_framework :: string
  input_arguments :: "'f json"
  execution_result :: "string option"
  is_anomaly :: bool
  timestamp :: nat

record 'f db =
  registry :: "'f ATPToolRegistry list"
  logs :: "'f ATPExecutionLog list"

section \<open>The log-record operation (api.py)\<close>

record 'f LogCreate =
  req_tool_name :: string
  req_agent_framework :: string
  req_input_arguments :: "'f json"
  req_execution_result :: string
  req_is_anomaly :: bool

text \<open>
  \<open>create_log\<close>: \<open>query(ATPToolRegistry).filter_by(tool_name=...).first()\<close> is the first
  row with that tool name; without one the handler raises \<open>HTTPException(404)\<close> before
  anything is added. Otherwise the new row is added and committed and its id returned.
\<close>

definition create_log ::
  "nat \<Rightarrow> nat \<Rightarrow> 'f LogCreate \<Rightarrow> 'f db \<Rightarrow> (py_error + nat) \<times> 'f db" where
  "create_log new_id now log_req db =
     (case find (\<lambda>t. tool_name t = req_tool_name log_req) (registry db) of
        None \<Rightarrow>
          (Inl (HTTPException 404 (''Tool '' @ req_tool_name log_req @ '' not found in registry'')),
           db)
      | Some tool \<Rightarrow>
          (let new_log = \<lparr>log_id = new_id, tool_id = reg_id tool,
                          agent_framework = req_agent_framework log_req,
                          input_arguments = req_input_arguments log_req,
                          execution_result = Some (req_execution_result log_req),
                          is_anomaly = req_is_anomaly log_req,
                          timestamp = now\<rparr>
           in (Inr (log_id new_log), db\<lparr>logs := logs db @ [new_log]\<rparr>)))"

section \<open>The translator (atp\_translator.py)\<close>

record server_parameters =
  command :: string
  args :: "string list"

text \<open>
  The translator object. \<open>exit_stack\<close> is the \<open>AsyncExitStack\<close> with the contexts entered
  on it, \<open>session\<close> the \<open>ClientSession\<close>; both are handles given by the environment.
\<close>

record translator =
  target_framework :: string
  server_params :: "server_parameters option"
  exit_stack :: "nat list option"
  session :: "nat option"
  stdio_ctx :: "server_parameters option"

definition init :: "(string \<Rightarrow> string) \<Rightarrow> string \<Rightarrow> translator" where
  "init lower target = \<lparr>target_framework = lower target, server_params = None,
                          exit_stack = None, session = None, stdio_ctx = None\<rparr>"

text \<open>
  \<open>connect\<close>. The environment says what entering \<open>stdio_client\<close> gives (the stream pair of
  the spawned provider), what entering \<open>ClientSession\<close> gives, and how \<open>initialize\<close> ends.
  Each assignment to \<open>self\<close> made before a failure stays.
\<close>

record connect_env =
  enter_stdio_client :: "py_error + nat"
  enter_client_session :: "py_error + nat"
  initialize :: "py_error + unit"

definition connect ::
  "connect_env \<Rightarrow> server_parameters \<Rightarrow> translator \<Rightarrow> (py_error + unit) \<times> translator" where
  "connect env server_parameters self =
     (let self1 = self\<lparr>server_params := Some server_parameters\<rparr>;
          self2 = self1\<lparr>exit_stack := Some []\<rparr>;
          self3 = self2\<lparr>stdio_ctx := server_params self2\<rparr>
      in case enter_stdio_client env of
           Inl e \<Rightarrow> (Inl e, self3)
         | Inr streams \<Rightarrow>
             (let self4 = self3\<lparr>exit_stack := Some [streams]\<rparr>
              in case enter_client_session env of
                   Inl e \<Rightarrow> (Inl e, self4)
                 | Inr s \<Rightarrow>
                     (let self5 = self4\<lparr>exit_stack := Some [s, streams], session := Some s\<rparr>
                      in case initialize env of
                           Inl e \<Rightarrow> (Inl e, self5)
                         | Inr u \<Rightarrow> (Inr (), self5))))"

definition disconnect :: "translator \<Rightarrow> translator" where
  "disconnect self =
     (case exit_stack self of
        None \<Rightarrow> self
      | Some contexts \<Rightarrow> self\<lparr>exit_stack := None, session := None\<rparr>)"

subsection \<open>Discovery: \<open>get_tools\<close>\<close>

record 'f tool =
  mcp_name :: string
  mcp_description :: "string option"
  inputSchema :: "'f json"

text \<open>
  What the environment does during one \<open>get_tools\<close>: the answer of \<open>list_tools\<close>, how
  the set-up of the database session ends (\<open>ImportError\<close>, which the code handles, any
  other exception, or a session), for the tool at each index whether the query or the
  commit raises, the fresh UUID and the clock, and whether the optional packages of two
  target frameworks can be imported.
\<close>

datatype db_setup_outcome = Db_Import_Error | Db_Setup_Raises py_error | Db_Session_Open

record 'f discovery_env =
  list_tools :: "py_error + 'f tool list"
  db_setup :: db_setup_outcome
  query_fault :: "nat \<Rightarrow> py_error option"
  commit_fault :: "nat \<Rightarrow> py_error option"
  uuid4 :: "nat \<Rightarrow> nat"
  utcnow :: "nat \<Rightarrow> nat"
  langchain_core_installed :: bool
  autogen_core_installed :: bool

text \<open>
  The registration of one tool (the \<open>try\<close> block in the loop of \<open>get_tools\<close>): any
  exception inside it is caught and printed, and nothing is persisted then.
\<close>

definition register_tool ::
  "'f lib \<Rightarrow> 'f discovery_env \<Rightarrow> translator \<Rightarrow> nat \<Rightarrow> 'f tool \<Rightarrow> 'f db \<Rightarrow> 'f db" where
  "register_tool lib env self i mcp_tool db =
     (let server_name = (case server_params self of
                           Some params \<Rightarrow> command params | None \<Rightarrow> ''Unknown'');
          schema_dict = inputSchema mcp_tool;
          m_hash = generate_manifest_hash (sha256_hexdigest lib) (float_repr lib)
                     server_name (mcp_name mcp_tool) schema_dict
      in case query_fault env i of
           Some e \<Rightarrow> db
         | None \<Rightarrow>
             (case find (\<lambda>r. manifest_hash r = m_hash) (registry db) of
                Some existing_tool \<Rightarrow> db
              | None \<Rightarrow>
                  (case generate_pydantic_model (create_model_raises lib) (capitalize lib)
                          (mcp_name mcp_tool) schema_dict of
                     Inl e \<Rightarrow> db
                   | Inr model \<Rightarrow>
                       (let new_entry =
                              \<lparr>reg_id = uuid4 env i, mcp_server_name = server_name,
                               tool_name = mcp_name mcp_tool, manifest_hash = m_hash,
                               raw_mcp_schema = schema_dict,
                               pydantic_schema_code = Some (schema_json lib model),
                               success_rate = 1, last_anomaly_log = None,
                               created_at = utcnow env i\<rparr>
                        in case commit_fault env i of
                             Some e \<Rightarrow> db
                           | None \<Rightarrow> db\<lparr>registry := registry db @ [new_entry]\<rparr>))))"

text \<open>The adapter a framework gets: its name, description, typed contract and session.\<close>

record 'f adapter =
  adapter_framework :: string
  adapter_name :: string
  adapter_description :: string
  args_schema :: "'f pydantic_model"
  adapter_session :: "nat option"

text \<open>\<open>mcp_tool.description or fallback\<close>: \<open>None\<close> and the empty string are both falsy.\<close>

definition description_or :: "string option \<Rightarrow> string \<Rightarrow> string" where
  "description_or d fallback = (case d of None \<Rightarrow> fallback | Some t \<Rightarrow> if t = [] then fallback else t)"

definition generate_crewai_tool ::
  "'f lib \<Rightarrow> translator \<Rightarrow> 'f tool \<Rightarrow> py_error + 'f adapter" where
  "generate_crewai_tool lib self mcp_tool =
     (case generate_pydantic_model (create_model_raises lib) (capitalize lib)
             (mcp_name mcp_tool) (inputSchema mcp_tool) of
        Inl e \<Rightarrow> Inl e
      | Inr generated_schema \<Rightarrow>
          Inr \<lparr>adapter_framework = ''crewai'', adapter_name = mcp_name mcp_tool,
               adapter_description =
                 description_or (mcp_description mcp_tool) (''Tool to execute '' @ mcp_name mcp_tool),
               args_schema = generated_schema, adapter_session = session self\<rparr>)"

definition generate_langchain_tool ::
  "'f lib \<Rightarrow> 'f discovery_env \<Rightarrow> translator \<Rightarrow> 'f tool \<Rightarrow> py_error + 'f adapter" where
  "generate_langchain_tool lib env self mcp_tool =
     (if \<not> langchain_core_installed env
      then Inl (ImportError ''langchain-core is required to generate LangChain tools. Run `pip install langchain-core`.'')
      else case generate_pydantic_model (create_model_raises lib) (capitalize lib)
                  (mcp_name mcp_tool) (inputSchema mcp_tool) of
             Inl e \<Rightarrow> Inl e
           | Inr generated_schema \<Rightarrow>
               Inr \<lparr>adapter_framework = ''langchain'', adapter_name = mcp_name mcp_tool,
                    adapter_description =
                      description_or (mcp_description mcp_tool)
                        (''Tool to execute '' @ mcp_name mcp_tool),
                    args_schema = generated_schema, adapter_session = session self\<rparr>)"

definition generate_autogen_tool ::
  "'f lib \<Rightarrow> 'f discovery_env \<Rightarrow> translator \<Rightarrow> 'f tool \<Rightarrow> py_error + 'f adapter" where
  "generate_autogen_tool lib env self mcp_tool =
     (if \<not> autogen_core_installed env
      then Inl (ImportError ''autogen-core is required to generate AutoGen tools. Run `pip install autogen-core`.'')
      else case generate_pydantic_model (create_model_raises lib) (capitalize lib)
                  (mcp_name mcp_tool) (inputSchema mcp_tool) of
             Inl e \<Rightarrow> Inl e
           | Inr generated_schema \<Rightarrow>
               Inr \<lparr>adapter_framework = ''autogen'', adapter_name = mcp_name mcp_tool,
                    adapter_description =
                      description_or (mcp_description mcp_tool) (''Tool '' @ mcp_name mcp_tool),
                    args_schema = generated_schema, adapter_session = session self\<rparr>)"

text \<open>The dispatch on the target framework at the end of the loop body.\<close>

definition perform_translation ::
  "'f lib \<Rightarrow> 'f discovery_env \<Rightarrow> translator \<Rightarrow> 'f tool \<Rightarrow> py_error + 'f adapter" where
  "perform_translation lib env self mcp_tool =
     (if target_framework self = ''crewai'' then generate_crewai_tool lib self mcp_tool
      else if target_framework self = ''langchain'' then generate_langchain_tool lib env self mcp_tool
      else if target_framework self = ''autogen'' then generate_autogen_tool lib env self mcp_tool
      else Inl (ValueError (''Unsupported target framework: '' @ target_framework self)))"

text \<open>
  The loop over \<open>response.tools\<close>: \<open>i\<close> is the index of the tool, \<open>tools\<close> the list built
  so far. A tool is registered first when there is a database session, then translated;
  an exception of the translation leaves the loop.
\<close>

fun get_tools_loop ::
  "'f lib \<Rightarrow> 'f discovery_env \<Rightarrow> translator \<Rightarrow> bool \<Rightarrow> nat \<Rightarrow> 'f tool list \<Rightarrow> 'f adapter list
     \<Rightarrow> 'f db \<Rightarrow> (py_error + 'f adapter list) \<times> 'f db" where
  "get_tools_loop lib env self db_session i [] tools db = (Inr tools, db)"
| "get_tools_loop lib env self db_session i (mcp_tool # rest) tools db =
     (let db' = (if db_session then register_tool lib env self i mcp_tool db else db)
      in case perform_translation lib env self mcp_tool of
           Inl e \<Rightarrow> (Inl e, db')
         | Inr translated_tool \<Rightarrow>
             get_tools_loop lib env self db_session (Suc i) rest (tools @ [translated_tool]) db')"

definition get_tools ::
  "'f lib \<Rightarrow> 'f discovery_env \<Rightarrow> translator \<Rightarrow> 'f db \<Rightarrow> (py_error + 'f adapter list) \<times> 'f db" where
  "get_tools lib env self db =
     (case session self of
        None \<Rightarrow> (Inl (RuntimeError ''Not connected to an MCP server. Call connect() first.''), db)
      | Some s \<Rightarrow>
          (case list_tools env of
             Inl e \<Rightarrow> (Inl e, db)
           | Inr response_tools \<Rightarrow>
               (case db_setup env of
                  Db_Setup_Raises e \<Rightarrow> (Inl e, db)
                | Db_Import_Error \<Rightarrow> get_tools_loop lib env self False 0 response_tools [] db
                | Db_Session_Open \<Rightarrow> get_tools_loop lib env self True 0 response_tools [] db)))"

subsection \<open>Invoking an adapter\<close>

text \<open>
  What the environment does during one invocation: the provider's answer to
  \<open>session.call_tool\<close>, the result of \<open>json.loads(json.dumps(kwargs))\<close>, and how the
  \<open>POST /logs\<close> ends (an exception of the HTTP client, or a response, whatever its status).
\<close>

record 'f invocation_env =
  call_tool :: "string \<Rightarrow> 'f json \<Rightarrow> py_error + call_tool_result"
  json_roundtrip :: "'f json \<Rightarrow> py_error + 'f json"
  client_post :: "'f LogCreate \<Rightarrow> py_error + unit"

text \<open>
  The classification, written three times in the source with the same text: the anomaly
  flag and the output. The loop appends the text of each content item of type \<open>text\<close>.
\<close>

definition classify :: "'f lib \<Rightarrow> call_tool_result \<Rightarrow> bool \<times> string" where
  "classify lib result =
     (if isError result
      then (True, ''Error executing tool: '' @ str_content lib (content result))
      else (False,
            foldl (\<lambda>output c. if content_type c = ''text'' then output @ content_text c else output)
                  [] (content result)))"

text \<open>
  Each function returns what the caller gets and the list of payloads handed to
  \<open>client.post\<close>. The \<open>try\<close> around the logging step catches every exception.
\<close>

definition crewai_async_call ::
  "'f lib \<Rightarrow> 'f invocation_env \<Rightarrow> 'f adapter \<Rightarrow> 'f json \<Rightarrow> (py_error + string) \<times> 'f LogCreate list" where
  "crewai_async_call lib env self kwargs =
     (case call_tool env (adapter_name self) kwargs of
        Inl e \<Rightarrow> (Inl e, [])
      | Inr result \<Rightarrow>
          (let (is_anomaly, output) = classify lib result;
               payload = \<lparr>req_tool_name = adapter_name self, req_agent_framework = ''crewai'',
                          req_input_arguments = kwargs, req_execution_result = output,
                          req_is_anomaly = is_anomaly\<rparr>
           in case client_post env payload of
                Inl e \<Rightarrow> (Inr output, [payload])
              | Inr u \<Rightarrow> (Inr output, [payload])))"

definition crewai_run ::
  "'f lib \<Rightarrow> 'f invocation_env \<Rightarrow> 'f adapter \<Rightarrow> 'f json \<Rightarrow> (py_error + string) \<times> 'f LogCreate list" where
  "crewai_run lib env self kwargs =
     (case crewai_async_call lib env self kwargs of
        (Inl e, posted) \<Rightarrow> (Inr (''Exception bridging sync to async: '' @ str_error e), posted)
      | (Inr output, posted) \<Rightarrow> (Inr output, posted))"

definition logged_async_call ::
  "string \<Rightarrow> 'f lib \<Rightarrow> 'f invocation_env \<Rightarrow> 'f adapter \<Rightarrow> 'f json
     \<Rightarrow> (py_error + string) \<times> 'f LogCreate list" where
  "logged_async_call framework lib env self kwargs =
     (case call_tool env (adapter_name self) kwargs of
        Inl e \<Rightarrow> (Inl e, [])
      | Inr result \<Rightarrow>
          (let (is_anomaly, output) = classify lib result
           in case json_roundtrip env kwargs of
                Inl e \<Rightarrow> (Inr output, [])
              | Inr safe_kwargs \<Rightarrow>
                  (let payload = \<lparr>req_tool_name = adapter_name self,
                                  req_agent_framework = framework,
                                  req_input_arguments = safe_kwargs,
                                  req_execution_result = output,
                                  req_is_anomaly = is_anomaly\<rparr>
                   in case client_post env payload of
                        Inl e \<Rightarrow> (Inr output, [payload])
                      | Inr u \<Rightarrow> (Inr output, [payload]))))"

text \<open>LangChain's \<open>_arun\<close> and its synchronous \<open>_run\<close>, which lets exceptions through.\<close>

definition langchain_arun ::
  "'f lib \<Rightarrow> 'f invocation_env \<Rightarrow> 'f adapter \<Rightarrow> 'f json \<Rightarrow> (py_error + string) \<times> 'f LogCreate list" where
  "langchain_arun = logged_async_call ''langchain''"

definition langchain_run ::
  "'f lib \<Rightarrow> 'f invocation_env \<Rightarrow> 'f adapter \<Rightarrow> 'f json \<Rightarrow> (py_error + string) \<times> 'f LogCreate list" where
  "langchain_run lib env self kwargs = langchain_arun lib env self kwargs"

text \<open>AutoGen's \<open>run\<close>, which awaits \<open>_async_call\<close> on the dumped arguments.\<close>

definition autogen_run ::
  "'f lib \<Rightarrow> 'f invocation_env \<Rightarrow> 'f adapter \<Rightarrow> 'f json \<Rightarrow> (py_error + string) \<times> 'f LogCreate list" where
  "autogen_run = logged_async_call ''autogen''"

section \<open>Properties of the fingerprint\<close>

lemma insort_key_map_same:
  assumes "\<And>x. f (g x) = h x"
  shows "insort_key f (g a) (map g xs) = map g (insort_key h a xs)"
  by (induction xs) (simp_all add: assms)

lemma sort_key_map_same:
  assumes "\<And>x. f (g x) = h x"
  shows "sort_key f (map g xs) = map g (sort_key h xs)"
proof (induction xs)
  case Nil
  show ?case by simp
next
  case (Cons a xs)
  have "insort_key f (g a) (map g (sort_key h xs)) = map g (insort_key h a (sort_key h xs))"
    using assms by (rule insort_key_map_same)
  with Cons show ?case by simp
qed

lemma sort_key_fst_perm:
  assumes "mset xs = mset ys" and "distinct (map fst xs)"
  shows "sort_key fst xs = sort_key fst ys"
proof (rule sort_key_inj_key_eq)
  show "mset xs = mset (sort_key fst ys)" using assms(1) by simp
  show "inj_on fst (set xs)" using assms(2) by (simp add: distinct_map)
  show "sorted (map fst (sort_key fst ys))" by simp
qed

lemma list_all2_eq_map: "list_all2 (\<lambda>a b. f a = g b) xs ys \<Longrightarrow> map f xs = map g ys"
  by (induction rule: list_all2_induct) simp_all

lemma dumps_canonical: "dumps fr True j = dumps fr False (canonical_schema j)"
proof (induction j)
  case (JArr xs)
  have "map (dumps fr True) xs = map (\<lambda>x. dumps fr False (canonical_schema x)) xs"
    by (rule map_cong) (simp_all add: JArr)
  then have "join '', '' (map (dumps fr True) xs)
             = join '', '' (map (\<lambda>x. dumps fr False (canonical_schema x)) xs)"
    by (rule arg_cong)
  then show ?case by (simp add: comp_def)
next
  case (JObj kvs)
  let ?T = "\<lambda>kv. encode_basestring_ascii (fst kv) @ '': '' @ dumps fr True (snd kv)"
  let ?F = "\<lambda>kv. encode_basestring_ascii (fst kv) @ '': '' @ dumps fr False (snd kv)"
  have item: "?T kv = ?F (map_prod id canonical_schema kv)" if "kv \<in> set kvs" for kv
  proof -
    have "snd kv \<in> Basic_BNFs.snds kv" by (cases kv) simp
    with JObj that have "dumps fr True (snd kv) = dumps fr False (canonical_schema (snd kv))"
      by blast
    then show ?thesis by (cases kv) simp
  qed
  have comm: "sort_key fst (map (map_prod id canonical_schema) kvs)
        = map (map_prod id canonical_schema) (sort_key fst kvs)"
    by (rule sort_key_map_same) simp
  have "map ?T (sort_key fst kvs)
        = map (\<lambda>kv. ?F (map_prod id canonical_schema kv)) (sort_key fst kvs)"
  proof (rule map_cong [OF refl])
    fix kv assume "kv \<in> set (sort_key fst kvs)"
    then have "kv \<in> set kvs" by simp
    then show "?T kv = ?F (map_prod id canonical_schema kv)" by (rule item)
  qed
  also have "\<dots> = map ?F (sort_key fst (map (map_prod id canonical_schema) kvs))"
    by (simp only: comm map_map comp_def)
  finally have "join '', '' (map ?T (sort_key fst kvs))
        = join '', '' (map ?F (sort_key fst (map (map_prod id canonical_schema) kvs)))"
    by (rule arg_cong)
  then show ?case by simp
qed simp_all

lemma dumps_perm_aux:
  assumes "json_perm s s'"
  shows "wf_json s \<longrightarrow> dumps fr True s = dumps fr True s'"
  using assms
proof (induction rule: json_perm.induct)
  case (same j)
  show ?case by simp
next
  case (arr xs ys)
  show ?case
  proof
    assume wf: "wf_json (JArr xs)"
    then have wfx: "\<And>x. x \<in> set xs \<Longrightarrow> wf_json x"
      by (simp add: list_all_iff)
    have "list_all2 (\<lambda>x y. dumps fr True x = dumps fr True y) xs ys"
      using arr by (rule list.rel_mono_strong) (simp add: wfx)
    then have "map (dumps fr True) xs = map (dumps fr True) ys"
      by (rule list_all2_eq_map)
    then have "join '', '' (map (dumps fr True) xs) = join '', '' (map (dumps fr True) ys)"
      by (rule arg_cong)
    then show "dumps fr True (JArr xs) = dumps fr True (JArr ys)" by simp
  qed
next
  case (obj kvs kvs' kvs'')
  let ?T = "\<lambda>kv. encode_basestring_ascii (fst kv) @ '': '' @ dumps fr True (snd kv)"
  let ?G = "\<lambda>kv. (fst kv, ?T kv)"
  show ?case
  proof
    assume wf: "wf_json (JObj kvs)"
    then have wfv: "\<And>kv. kv \<in> set kvs \<Longrightarrow> wf_json (snd kv)"
      by (auto simp: list_all_iff pred_prod_beta)
    have "list_all2 (\<lambda>a b. fst a = fst b) kvs kvs'"
      using obj.IH by (rule list.rel_mono_strong) simp
    then have keys: "map fst kvs = map fst kvs'"
      by (rule list_all2_eq_map)
    have "list_all2 (\<lambda>a b. ?G a = ?G b) kvs kvs'"
      using obj.IH by (rule list.rel_mono_strong) (simp add: wfv)
    then have G: "map ?G kvs = map ?G kvs'"
      by (rule list_all2_eq_map)
    from wf keys have "distinct (map fst kvs')" by simp
    with obj.hyps have sorted_eq: "sort_key fst kvs' = sort_key fst kvs''"
      by (rule sort_key_fst_perm)
    have comm: "sort_key fst (map ?G xs) = map ?G (sort_key fst xs)"
      for xs :: "(string \<times> 'a json) list"
      by (rule sort_key_map_same) simp
    have "map ?T (sort_key fst kvs) = map snd (map ?G (sort_key fst kvs))"
      by (simp add: comp_def)
    also have "\<dots> = map snd (map ?G (sort_key fst kvs'))"
      using G by (simp only: comm [symmetric])
    also have "\<dots> = map ?T (sort_key fst kvs'')"
      by (simp add: comp_def sorted_eq)
    finally have "join '', '' (map ?T (sort_key fst kvs)) = join '', '' (map ?T (sort_key fst kvs''))"
      by (rule arg_cong)
    then show "dumps fr True (JObj kvs) = dumps fr True (JObj kvs'')" by simp
  qed
qed

lemma dumps_perm: "json_perm s s' \<Longrightarrow> wf_json s \<Longrightarrow> dumps fr True s = dumps fr True s'"
  using dumps_perm_aux by blast

text \<open>The end-to-end example of the tests: \<open>calculate_sum\<close> with two required integers,
  and the same schema with the keys of both objects inserted in the other order.\<close>

definition sum_schema :: "string json" where
  "sum_schema =
     JObj [(''properties'', JObj [(''a'', JObj [(''type'', JStr ''integer'')]),
                                  (''b'', JObj [(''type'', JStr ''integer'')])]),
           (''required'', JArr [JStr ''a'', JStr ''b''])]"

definition sum_schema_permuted :: "string json" where
  "sum_schema_permuted =
     JObj [(''required'', JArr [JStr ''a'', JStr ''b'']),
           (''properties'', JObj [(''b'', JObj [(''type'', JStr ''integer'')]),
                                  (''a'', JObj [(''type'', JStr ''integer'')])])]"

lemma sum_schema_perm: "json_perm sum_schema sum_schema_permuted"
  unfolding sum_schema_def sum_schema_permuted_def
  apply (rule json_perm.obj [where kvs' =
      "[(''properties'', JObj [(''b'', JObj [(''type'', JStr ''integer'')]),
                               (''a'', JObj [(''type'', JStr ''integer'')])]),
        (''required'', JArr [JStr ''a'', JStr ''b''])]"])
   apply (simp add: json_perm.same)
   apply (rule json_perm.obj [where kvs' =
      "[(''a'', JObj [(''type'', JStr ''integer'')]),
        (''b'', JObj [(''type'', JStr ''integer'')])]"])
    apply (simp add: json_perm.same)
   apply simp
  apply simp
  done

lemma sum_schema_wf: "wf_json sum_schema"
  by (simp add: sum_schema_def)

text \<open>
  Claim C2. The fingerprint is a function of its three arguments, so computing it twice
  gives the same text. Two schemas that differ only in the insertion order of the keys of
  their objects (the \<open>properties\<close> object included) get the same fingerprint, and the
  fingerprint is the digest of the UTF-8 bytes of
  \<open>server_name + ":" + tool_name + ":" +\<close> the plain serialization of the schema with the
  keys of every object sorted.
\<close>

theorem fingerprint_key_order_independent:
  assumes "json_perm s s'" and "wf_json s"
  shows "generate_manifest_hash H fr p t s = generate_manifest_hash H fr p t s'
         \<and> generate_manifest_hash H fr p t s
             = H (encode_utf8 (p @ '':'' @ t @ '':'' @ dumps fr False (canonical_schema s)))"
  using dumps_perm [OF assms, of fr] dumps_canonical [of fr s]
  by (simp add: generate_manifest_hash_def)

theorem fingerprint_key_order_independent_witness:
  "json_perm sum_schema sum_schema_permuted \<and> wf_json sum_schema
   \<and> generate_manifest_hash (\<lambda>b. b) (\<lambda>x. x) ''python'' ''calculate_sum'' sum_schema
     = generate_manifest_hash (\<lambda>b. b) (\<lambda>x. x) ''python'' ''calculate_sum'' sum_schema_permuted
   \<and> generate_manifest_hash (\<lambda>b. b) (\<lambda>x. x) ''python'' ''calculate_sum'' sum_schema_permuted
     = ''python:calculate_sum:{'' @ [CHR 0x22] @ ''properties'' @ [CHR 0x22] @ '': {''
        @ [CHR 0x22] @ ''a'' @ [CHR 0x22] @ '': {''
        @ [CHR 0x22] @ ''type'' @ [CHR 0x22] @ '': '' @ [CHR 0x22] @ ''integer'' @ [CHR 0x22]
        @ ''}, '' @ [CHR 0x22] @ ''b'' @ [CHR 0x22] @ '': {''
        @ [CHR 0x22] @ ''type'' @ [CHR 0x22] @ '': '' @ [CHR 0x22] @ ''integer'' @ [CHR 0x22]
        @ ''}}, '' @ [CHR 0x22] @ ''required'' @ [CHR 0x22] @ '': ['' @ [CHR 0x22] @ ''a''
        @ [CHR 0x22] @ '', '' @ [CHR 0x22] @ ''b'' @ [CHR 0x22] @ '']}''"
proof -
  have val: "generate_manifest_hash (\<lambda>b. b) (\<lambda>x. x) ''python'' ''calculate_sum'' sum_schema
     = ''python:calculate_sum:{'' @ [CHR 0x22] @ ''properties'' @ [CHR 0x22] @ '': {''
        @ [CHR 0x22] @ ''a'' @ [CHR 0x22] @ '': {''
        @ [CHR 0x22] @ ''type'' @ [CHR 0x22] @ '': '' @ [CHR 0x22] @ ''integer'' @ [CHR 0x22]
        @ ''}, '' @ [CHR 0x22] @ ''b'' @ [CHR 0x22] @ '': {''
        @ [CHR 0x22] @ ''type'' @ [CHR 0x22] @ '': '' @ [CHR 0x22] @ ''integer'' @ [CHR 0x22]
        @ ''}}, '' @ [CHR 0x22] @ ''required'' @ [CHR 0x22] @ '': ['' @ [CHR 0x22] @ ''a''
        @ [CHR 0x22] @ '', '' @ [CHR 0x22] @ ''b'' @ [CHR 0x22] @ '']}''"
    by (simp add: generate_manifest_hash_def sum_schema_def encode_utf8_def utf8_char_def
        encode_basestring_ascii_def escape_char_def)
  show ?thesis
    using fingerprint_key_order_independent [OF sum_schema_perm sum_schema_wf,
        of "\<lambda>b. b" "\<lambda>x. x" "''python''" "''calculate_sum''"]
      sum_schema_perm sum_schema_wf val by simp
qed

section \<open>Properties of the schema translation\<close>

lemma dict_set_fresh: "key \<notin> fst ` set d \<Longrightarrow> dict_set key v d = d @ [(key, v)]"
  by (induction d) auto

lemma hashable_type_translates:
  "hashable_type fs \<Longrightarrow> json_schema_to_pydantic_type fs = Inr (declared_type fs)"
proof -
  have str: "map_of type_mapping ''string'' = Some PyStr"
    by (simp add: type_mapping_def)
  assume "hashable_type fs"
  then show ?thesis
    by (auto simp: str hashable_type_def declared_type_def json_schema_to_pydantic_type_def
        py_get_def dict_get_def type_mapping_get_def split: json.splits option.splits)
qed

lemma hashable_type_description:
  "hashable_type fs \<Longrightarrow> py_get fs ''description'' (JStr []) = Inr (declared_description fs)"
  by (auto simp: hashable_type_def declared_description_def py_get_def dict_get_def
      split: json.splits option.splits)

lemma generate_fields_closed_form:
  assumes "\<forall>item \<in> set items. hashable_type (snd item)"
    and "distinct (map fst items)"
    and "fst ` set items \<inter> fst ` set acc = {}"
  shows "generate_fields (JArr required) items acc = Inr (acc @ map (contract_field required) items)"
  using assms
proof (induction items arbitrary: acc)
  case Nil
  show ?case by simp
next
  case (Cons item items)
  obtain field_name field_schema where item: "item = (field_name, field_schema)"
    by (cases item)
  let ?fd = "snd (contract_field required item)"
  have fresh: "field_name \<notin> fst ` set acc" using Cons.prems(3) item by auto
  have h: "hashable_type field_schema" using Cons.prems(1) item by simp
  have step: "generate_fields (JArr required) (item # items) acc
      = generate_fields (JArr required) items (acc @ [(field_name, ?fd)])"
    using fresh h
    by (simp add: item hashable_type_translates hashable_type_description py_in_def
        contract_field_def dict_set_fresh)
  have "generate_fields (JArr required) items (acc @ [(field_name, ?fd)])
      = Inr ((acc @ [(field_name, ?fd)]) @ map (contract_field required) items)"
  proof (rule Cons.IH)
    show "\<forall>item\<in>set items. hashable_type (snd item)" using Cons.prems(1) by simp
    show "distinct (map fst items)" using Cons.prems(2) by simp
    show "fst ` set items \<inter> fst ` set (acc @ [(field_name, ?fd)]) = {}"
      using Cons.prems(2,3) item by auto
  qed
  with step show ?case by (simp add: item contract_field_def)
qed

lemma generate_pydantic_model_covers_properties:
  assumes "map_of schema_items ''properties'' = Some (JObj items)"
    and "map_of schema_items ''required'' = Some (JArr required) \<or>
         (map_of schema_items ''required'' = None \<and> required = [])"
    and "\<forall>item \<in> set items. hashable_type (snd item)"
    and "distinct (map fst items)"
    and "refuses (cap tname @ ''Input'') (map (contract_field required) items) = None"
  shows "generate_pydantic_model refuses cap tname (JObj schema_items)
     = Inr \<lparr>model_name = cap tname @ ''Input'',
            model_fields = map (contract_field required) items\<rparr>"
proof -
  have "generate_fields (JArr required) items [] = Inr ([] @ map (contract_field required) items)"
    using assms(3,4) by (intro generate_fields_closed_form) simp_all
  then show ?thesis
    using assms(1,2,5) by (auto simp: generate_pydantic_model_def py_get_def dict_get_def Let_def)
qed

text \<open>
  Claim C3. Where every property schema is a dict whose declared type is a string, absent
  or a scalar, the contract has one field per property, in order, required exactly for
  the names in the required list (\<open>generate_pydantic_model_covers_properties\<close>). The
  claim also promises that an unrecognized declared type never raises. A declared type
  that is a JSON array, as in \<open>{"type": ["string", "null"]}\<close>, is looked up in the table
  like any other and is unhashable: the translation of the whole schema raises
  \<open>TypeError\<close> instead of giving the field the open type.
\<close>

theorem generate_pydantic_model_unhashable_type:
  "generate_pydantic_model refuses cap ''t'' nullable_schema
     = Inl (TypeError (''unhashable type: '' @ quoted ''list''))"
  by (simp add: nullable_schema_def generate_pydantic_model_def py_get_def dict_get_def
      json_schema_to_pydantic_type_def type_mapping_get_def)

section \<open>Properties of the registry\<close>

lemma find_append_if:
  "find P (xs @ ys) = (case find P xs of None \<Rightarrow> find P ys | Some x \<Rightarrow> Some x)"
  by (induction xs) simp_all

lemma find_None_filter: "find P xs = None \<Longrightarrow> filter P xs = []"
  by (induction xs) (auto split: if_splits)

lemma filter_key_unique:
  "distinct (map f xs) \<Longrightarrow> find (\<lambda>r. f r = k) xs = Some x \<Longrightarrow> filter (\<lambda>r. f r = k) xs = [x]"
proof (induction xs)
  case Nil
  then show ?case by simp
next
  case (Cons a xs)
  show ?case
  proof (cases "f a = k")
    case True
    then have "k \<notin> f ` set xs" using Cons.prems(1) by auto
    then have "filter (\<lambda>r. f r = k) xs = []" by (auto simp: filter_empty_conv)
    with True Cons.prems(2) show ?thesis by simp
  next
    case False
    with Cons show ?thesis by simp
  qed
qed

lemma filter_key_at_most_one:
  "distinct (map f xs) \<Longrightarrow> length (filter (\<lambda>r. f r = k) xs) \<le> 1"
proof (cases "find (\<lambda>r. f r = k) xs")
  case None
  assume "distinct (map f xs)"
  from find_None_filter [OF None] show ?thesis by simp
next
  case (Some x)
  assume "distinct (map f xs)"
  from filter_key_unique [OF this Some] show ?thesis by simp
qed

text \<open>The fingerprint \<open>m_hash\<close> that the registration computes for a tool.\<close>

definition fingerprint_of :: "'f lib \<Rightarrow> translator \<Rightarrow> 'f tool \<Rightarrow> string" where
  "fingerprint_of lib self mcp_tool =
     generate_manifest_hash (sha256_hexdigest lib) (float_repr lib)
       (case server_params self of Some params \<Rightarrow> command params | None \<Rightarrow> ''Unknown'')
       (mcp_name mcp_tool) (inputSchema mcp_tool)"

lemma register_tool_existing:
  "find (\<lambda>r. manifest_hash r = fingerprint_of lib self t) (registry db) = Some r
   \<Longrightarrow> register_tool lib env self i t db = db"
  by (simp add: register_tool_def fingerprint_of_def Let_def split: option.splits)

lemma register_tool_fresh:
  assumes "find (\<lambda>r. manifest_hash r = fingerprint_of lib self t) (registry db) = None"
    and "generate_pydantic_model (create_model_raises lib) (capitalize lib) (mcp_name t)
           (inputSchema t) = Inr model"
    and "query_fault env i = None" and "commit_fault env i = None"
  shows "register_tool lib env self i t db
     = db\<lparr>registry := registry db @
       [\<lparr>reg_id = uuid4 env i,
         mcp_server_name = (case server_params self of Some params \<Rightarrow> command params
                            | None \<Rightarrow> ''Unknown''),
         tool_name = mcp_name t, manifest_hash = fingerprint_of lib self t,
         raw_mcp_schema = inputSchema t,
         pydantic_schema_code = Some (schema_json lib model),
         success_rate = 1, last_anomaly_log = None, created_at = utcnow env i\<rparr>]\<rparr>"
  using assms by (simp add: register_tool_def fingerprint_of_def Let_def)

lemma register_tool_abandoned:
  assumes "(\<exists>e. generate_pydantic_model (create_model_raises lib) (capitalize lib) (mcp_name t)
                  (inputSchema t) = Inl e)
           \<or> query_fault env i \<noteq> None \<or> commit_fault env i \<noteq> None"
  shows "register_tool lib env self i t db = db"
  using assms
  by (auto simp: register_tool_def Let_def split: option.splits sum.splits)

lemma register_tool_outcomes:
  "register_tool lib env self i t db = db \<or>
   (find (\<lambda>r. manifest_hash r = fingerprint_of lib self t) (registry db) = None \<and>
    (\<exists>r. manifest_hash r = fingerprint_of lib self t \<and>
         register_tool lib env self i t db = db\<lparr>registry := registry db @ [r]\<rparr>))"
proof (cases "find (\<lambda>r. manifest_hash r = fingerprint_of lib self t) (registry db)")
  case (Some r)
  then show ?thesis by (simp add: register_tool_existing)
next
  case None
  show ?thesis
  proof (cases "generate_pydantic_model (create_model_raises lib) (capitalize lib) (mcp_name t)
                  (inputSchema t)")
    case (Inl e)
    then show ?thesis by (simp add: register_tool_abandoned)
  next
    case (Inr model)
    show ?thesis
    proof (cases "query_fault env i = None \<and> commit_fault env i = None")
      case False
      then show ?thesis by (simp add: register_tool_abandoned)
    next
      case True
      let ?r = "\<lparr>reg_id = uuid4 env i,
         mcp_server_name = (case server_params self of Some params \<Rightarrow> command params
                            | None \<Rightarrow> ''Unknown''),
         tool_name = mcp_name t, manifest_hash = fingerprint_of lib self t,
         raw_mcp_schema = inputSchema t,
         pydantic_schema_code = Some (schema_json lib model),
         success_rate = 1, last_anomaly_log = None, created_at = utcnow env i\<rparr>"
      have "register_tool lib env self i t db = db\<lparr>registry := registry db @ [?r]\<rparr>"
        using None Inr True by (intro register_tool_fresh) simp_all
      moreover have "manifest_hash ?r = fingerprint_of lib self t" by simp
      ultimately show ?thesis using None by blast
    qed
  qed
qed

lemma register_tool_distinct:
  assumes "distinct (map manifest_hash (registry db))"
  shows "distinct (map manifest_hash (registry (register_tool lib env self i t db)))"
proof -
  from register_tool_outcomes [of lib env self i t db] show ?thesis
  proof
    assume "register_tool lib env self i t db = db"
    with assms show ?thesis by simp
  next
    assume "find (\<lambda>r. manifest_hash r = fingerprint_of lib self t) (registry db) = None \<and>
      (\<exists>r. manifest_hash r = fingerprint_of lib self t \<and>
         register_tool lib env self i t db = db\<lparr>registry := registry db @ [r]\<rparr>)"
    then obtain r where none: "find (\<lambda>r. manifest_hash r = fingerprint_of lib self t) (registry db) = None"
      and r: "manifest_hash r = fingerprint_of lib self t"
      and eq: "register_tool lib env self i t db = db\<lparr>registry := registry db @ [r]\<rparr>"
      by blast
    from none have "fingerprint_of lib self t \<notin> manifest_hash ` set (registry db)"
      by (auto simp: find_None_iff)
    with assms r eq show ?thesis by simp
  qed
qed

text \<open>
  Claim C1, as amended. Take a registry whose fingerprints are distinct (the column is
  \<open>unique\<close>) and register the same provider, tool and schema twice, under any two
  environments. The registry never holds more than one manifest with the tool's
  fingerprint. If a manifest \<open>r\<close> with that fingerprint exists after the first run, the
  second run leaves the database as it is, so it finds the same \<open>r\<close> with the same id,
  inserts no row, and the rows with that fingerprint are exactly \<open>[r]\<close>. Such a manifest
  exists after a first run in which the typed contract is generated and neither the
  query nor the commit raises. A run in which one of these raises is abandoned (the
  exception is caught and reported) and leaves the database as it was.
\<close>

theorem register_tool_idempotent:
  assumes "distinct (map manifest_hash (registry db))"
  shows "length (filter (\<lambda>r. manifest_hash r = fingerprint_of lib self t)
           (registry (register_tool lib env' self j t (register_tool lib env self i t db)))) \<le> 1
       \<and> (\<forall>r. find (\<lambda>r. manifest_hash r = fingerprint_of lib self t)
                 (registry (register_tool lib env self i t db)) = Some r \<longrightarrow>
              register_tool lib env' self j t (register_tool lib env self i t db)
                = register_tool lib env self i t db
            \<and> filter (\<lambda>r. manifest_hash r = fingerprint_of lib self t)
                 (registry (register_tool lib env' self j t (register_tool lib env self i t db)))
                = [r])
       \<and> (\<forall>model. generate_pydantic_model (create_model_raises lib) (capitalize lib) (mcp_name t)
                     (inputSchema t) = Inr model
                   \<and> query_fault env i = None \<and> commit_fault env i = None \<longrightarrow>
              (\<exists>r. find (\<lambda>r. manifest_hash r = fingerprint_of lib self t)
                     (registry (register_tool lib env self i t db)) = Some r))
       \<and> ((\<exists>e. generate_pydantic_model (create_model_raises lib) (capitalize lib) (mcp_name t)
                  (inputSchema t) = Inl e)
            \<or> query_fault env i \<noteq> None \<or> commit_fault env i \<noteq> None \<longrightarrow>
              register_tool lib env self i t db = db)"
proof (intro conjI allI impI)
  let ?h = "fingerprint_of lib self t"
  let ?db1 = "register_tool lib env self i t db"
  let ?db2 = "register_tool lib env' self j t ?db1"
  have d1: "distinct (map manifest_hash (registry ?db1))"
    using assms by (rule register_tool_distinct)
  then have d2: "distinct (map manifest_hash (registry ?db2))"
    by (rule register_tool_distinct)
  then show "length (filter (\<lambda>r. manifest_hash r = ?h) (registry ?db2)) \<le> 1"
    by (rule filter_key_at_most_one)
  {
    fix r assume found: "find (\<lambda>r. manifest_hash r = ?h) (registry ?db1) = Some r"
    then show same: "?db2 = ?db1" by (rule register_tool_existing)
    show "filter (\<lambda>r. manifest_hash r = ?h) (registry ?db2) = [r]"
      using filter_key_unique [OF d1 found] same by simp
  }
  {
    fix model
    assume ok: "generate_pydantic_model (create_model_raises lib) (capitalize lib) (mcp_name t)
                  (inputSchema t) = Inr model
                \<and> query_fault env i = None \<and> commit_fault env i = None"
    show "\<exists>r. find (\<lambda>r. manifest_hash r = ?h) (registry ?db1) = Some r"
    proof (cases "find (\<lambda>r. manifest_hash r = ?h) (registry db)")
      case (Some r)
      then show ?thesis by (simp add: register_tool_existing)
    next
      case None
      with ok show ?thesis
        by (simp add: register_tool_fresh find_append_if)
    qed
  }
  {
    assume "(\<exists>e. generate_pydantic_model (create_model_raises lib) (capitalize lib) (mcp_name t)
                  (inputSchema t) = Inl e)
            \<or> query_fault env i \<noteq> None \<or> commit_fault env i \<noteq> None"
    then show "?db1 = db" by (rule register_tool_abandoned)
  }
qed

section \<open>Properties of an adapter invocation\<close>




lemma crewai_async_call_result:
  assumes "call_tool env (adapter_name self) kwargs = Inr result"
  shows "crewai_async_call lib env self kwargs
     = (Inr (snd (classify lib result)),
        [\<lparr>req_tool_name = adapter_name self, req_agent_framework = ''crewai'',
          req_input_arguments = kwargs, req_execution_result = snd (classify lib result),
          req_is_anomaly = fst (classify lib result)\<rparr>])"
  using assms by (simp add: crewai_async_call_def split: prod.splits sum.splits)

lemma logged_async_call_result:
  assumes "call_tool env (adapter_name self) kwargs = Inr result"
  shows "logged_async_call framework lib env self kwargs
     = (Inr (snd (classify lib result)),
        case json_roundtrip env kwargs of
          Inl e \<Rightarrow> []
        | Inr safe_kwargs \<Rightarrow>
           [\<lparr>req_tool_name = adapter_name self, req_agent_framework = framework,
             req_input_arguments = safe_kwargs, req_execution_result = snd (classify lib result),
             req_is_anomaly = fst (classify lib result)\<rparr>])"
  using assms by (simp add: logged_async_call_def split: prod.splits sum.splits)

text \<open>
  The functions through which a host runtime invokes an adapter: CrewAI's \<open>_run\<close> and
  the coroutine it drives, LangChain's \<open>_arun\<close> and \<open>_run\<close>, AutoGen's \<open>run\<close>.
\<close>

definition adapter_entry_points ::
  "('f lib \<Rightarrow> 'f invocation_env \<Rightarrow> 'f adapter \<Rightarrow> 'f json
      \<Rightarrow> (py_error + string) \<times> 'f LogCreate list) set" where
  "adapter_entry_points =
     {crewai_async_call, crewai_run, langchain_arun, langchain_run, autogen_run}"

lemma entry_point_result:
  assumes "run \<in> adapter_entry_points"
    and "call_tool env (adapter_name self) kwargs = Inr result"
  shows "fst (run lib env self kwargs) = Inr (snd (classify lib result))"
    and "\<forall>p \<in> set (snd (run lib env self kwargs)).
           req_is_anomaly p = fst (classify lib result) \<and>
           req_execution_result p = snd (classify lib result) \<and>
           req_tool_name p = adapter_name self"
  using assms
  by (auto simp: adapter_entry_points_def crewai_run_def langchain_run_def langchain_arun_def
      autogen_run_def crewai_async_call_result logged_async_call_result split: sum.splits)











text \<open>
  Claim C5. The value an entry point returns depends on the provider's answers only: two
  environments that agree on \<open>call_tool\<close> and differ in any way in the logging step (the
  POST raising or not, the argument round trip raising or not) give the caller the same
  value, and when the provider call returned a result that value is the composed text,
  never an exception.
\<close>

theorem logging_failure_never_reaches_caller:
  assumes "run \<in> adapter_entry_points"
    and "call_tool env' = call_tool env"
  shows "fst (run lib env' self kwargs) = fst (run lib env self kwargs)
       \<and> (\<forall>result. call_tool env (adapter_name self) kwargs = Inr result \<longrightarrow>
             fst (run lib env' self kwargs) = Inr (snd (classify lib result)))"
proof (cases "call_tool env (adapter_name self) kwargs")
  case (Inl e)
  then show ?thesis
    using assms
    by (auto simp: adapter_entry_points_def crewai_run_def langchain_run_def langchain_arun_def
        autogen_run_def crewai_async_call_def logged_async_call_def)
next
  case (Inr result)
  then have "call_tool env' (adapter_name self) kwargs = Inr result" using assms(2) by simp
  with Inr assms(1) show ?thesis by (simp add: entry_point_result(1))
qed


section \<open>Properties of the log-record operation\<close>

lemma find_None_name:
  "n \<notin> tool_name ` set rows \<Longrightarrow> find (\<lambda>t. tool_name t = n) rows = None"
  by (induction rows) auto

lemma create_log_unknown:
  "req_tool_name log_req \<notin> tool_name ` set (registry db) \<Longrightarrow>
   create_log new_id now log_req db
     = (Inl (HTTPException 404 (''Tool '' @ req_tool_name log_req @ '' not found in registry'')), db)"
  by (simp add: create_log_def find_None_name)

text \<open>
  Claim C6. A record request whose tool name is the name of no manifest fails with the
  404 \<open>HTTPException\<close> (the not-registered error) and returns the database as it was:
  no manifest is added and no log entry is written.
\<close>

theorem create_log_rejects_unknown_tool:
  assumes "req_tool_name log_req \<notin> tool_name ` set (registry db)"
  shows "create_log new_id now log_req db
     = (Inl (HTTPException 404 (''Tool '' @ req_tool_name log_req @ '' not found in registry'')), db)"
  using assms by (rule create_log_unknown)

lemma find_Some_split:
  "find P xs = Some x \<Longrightarrow> \<exists>before rest. xs = before @ x # rest \<and> (\<forall>r \<in> set before. \<not> P r) \<and> P x"
proof (induction xs)
  case Nil
  then show ?case by simp
next
  case (Cons a xs)
  show ?case
  proof (cases "P a")
    case True
    with Cons.prems have "a = x" by simp
    with True have "a # xs = [] @ x # xs \<and> (\<forall>r \<in> set []. \<not> P r) \<and> P x" by simp
    then show ?thesis by blast
  next
    case False
    with Cons obtain before rest where "xs = before @ x # rest" "\<forall>r \<in> set before. \<not> P r" "P x"
      by auto
    with False have "a # xs = (a # before) @ x # rest \<and> (\<forall>r \<in> set (a # before). \<not> P r) \<and> P x"
      by simp
    then show ?thesis by blast
  qed
qed

lemma create_log_found:
  assumes "find (\<lambda>r. tool_name r = req_tool_name log_req) (registry db) = Some t"
  shows "create_log new_id now log_req db
     = (Inr new_id,
        db\<lparr>logs := logs db @
             [\<lparr>log_id = new_id, tool_id = reg_id t,
               agent_framework = req_agent_framework log_req,
               input_arguments = req_input_arguments log_req,
               execution_result = Some (req_execution_result log_req),
               is_anomaly = req_is_anomaly log_req, timestamp = now\<rparr>]\<rparr>)"
  using assms by (simp add: create_log_def Let_def)

text \<open>
  Claim C10. When a record request succeeds, the registry splits into rows whose tool name
  differs from the request's, then a row \<open>t\<close> with that tool name, then the rest; the new
  entry's \<open>tool_id\<close> is the id of \<open>t\<close>, whatever the provider and the fingerprint of
  \<open>t\<close> and of the rows after it are. Any further request with the same tool name, from
  whichever provider's adapter, attaches to the same \<open>t\<close>.
\<close>

theorem create_log_attaches_by_tool_name:
  assumes "fst (create_log new_id now log_req db) = Inr lid"
  shows "\<exists>before t rest.
           registry db = before @ t # rest
         \<and> (\<forall>r \<in> set before. tool_name r \<noteq> req_tool_name log_req)
         \<and> tool_name t = req_tool_name log_req
         \<and> snd (create_log new_id now log_req db)
             = db\<lparr>logs := logs db @
                 [\<lparr>log_id = new_id, tool_id = reg_id t,
                   agent_framework = req_agent_framework log_req,
                   input_arguments = req_input_arguments log_req,
                   execution_result = Some (req_execution_result log_req),
                   is_anomaly = req_is_anomaly log_req, timestamp = now\<rparr>]\<rparr>
         \<and> (\<forall>other new_id' now'.
               req_tool_name other = req_tool_name log_req \<longrightarrow>
               map tool_id (logs (snd (create_log new_id' now' other
                                        (snd (create_log new_id now log_req db)))))
                 = map tool_id (logs db) @ [reg_id t, reg_id t])"
proof -
  let ?n = "req_tool_name log_req"
  from assms obtain t where t: "find (\<lambda>r. tool_name r = ?n) (registry db) = Some t"
    by (auto simp: create_log_def split: option.splits)
  from find_Some_split [OF t] obtain before rest where
    split: "registry db = before @ t # rest" "\<forall>r \<in> set before. tool_name r \<noteq> ?n" "tool_name t = ?n"
    by blast
  have first: "snd (create_log new_id now log_req db)
      = db\<lparr>logs := logs db @
             [\<lparr>log_id = new_id, tool_id = reg_id t,
               agent_framework = req_agent_framework log_req,
               input_arguments = req_input_arguments log_req,
               execution_result = Some (req_execution_result log_req),
               is_anomaly = req_is_anomaly log_req, timestamp = now\<rparr>]\<rparr>" (is "_ = ?db'")
    by (simp add: create_log_found [OF t])
  have second: "map tool_id (logs (snd (create_log new_id' now' other ?db')))
      = map tool_id (logs db) @ [reg_id t, reg_id t]"
    if "req_tool_name other = ?n" for other :: "'a LogCreate" and new_id' now'
  proof -
    have "find (\<lambda>r. tool_name r = req_tool_name other) (registry ?db') = Some t"
      using t that by simp
    then show ?thesis by (simp add: create_log_found)
  qed
  show ?thesis
    using split first second by (intro exI conjI) (simp_all only: first, simp_all)
qed

section \<open>Properties of discovery and of the session\<close>

definition supported_frameworks :: "string set" where
  "supported_frameworks = {''crewai'', ''langchain'', ''autogen''}"

lemma perform_translation_unsupported:
  "target_framework self \<notin> supported_frameworks \<Longrightarrow>
   perform_translation lib env self t
     = Inl (ValueError (''Unsupported target framework: '' @ target_framework self))"
  by (simp add: perform_translation_def supported_frameworks_def)

text \<open>
  With at least one tool listed, an unsupported target framework makes \<open>get_tools\<close>
  raise: the \<open>ValueError\<close> of the dispatch, unless the set-up of the database session has
  raised before. With no tool listed the loop body never runs.
\<close>

lemma unsupported_framework_raises_on_first_tool:
  assumes "target_framework self \<notin> supported_frameworks"
    and "session self = Some s"
    and "list_tools env = Inr (t # ts)"
  shows "fst (get_tools lib env self db)
     = (case db_setup env of
          Db_Setup_Raises e \<Rightarrow> Inl e
        | _ \<Rightarrow> Inl (ValueError (''Unsupported target framework: '' @ target_framework self)))"
  using assms
  by (simp add: get_tools_def perform_translation_unsupported Let_def
      split: db_setup_outcome.splits)

lemma get_tools_no_tools:
  assumes "session self = Some s" and "list_tools env = Inr []"
    and "\<forall>e. db_setup env \<noteq> Db_Setup_Raises e"
  shows "get_tools lib env self db = (Inr [], db)"
  using assms by (simp add: get_tools_def split: db_setup_outcome.splits)

text \<open>
  Claim C8, as amended. \<open>connect\<close> has no guard: its outcome is the outcome of
  establishing the new channel, whatever the translator holds. It raises exactly when
  entering the transport, entering the session or \<open>initialize\<close> raises, and then that
  exception, never a misuse error; when the three succeed it succeeds, also while a
  session is stored, and stores the new parameters, an exit stack holding the new
  contexts only, and the new session in place of the old ones.
\<close>

theorem connect_replaces_channel:
  "fst (connect env server_parameters self)
     = (case enter_stdio_client env of
          Inl e \<Rightarrow> Inl e
        | Inr streams \<Rightarrow>
            (case enter_client_session env of
               Inl e \<Rightarrow> Inl e
             | Inr s \<Rightarrow> (case initialize env of Inl e \<Rightarrow> Inl e | Inr u \<Rightarrow> Inr ())))
   \<and> (\<forall>streams s.
         enter_stdio_client env = Inr streams \<and> enter_client_session env = Inr s
         \<and> initialize env = Inr () \<longrightarrow>
         snd (connect env server_parameters self)
           = self\<lparr>server_params := Some server_parameters,
                  stdio_ctx := Some server_parameters,
                  exit_stack := Some [s, streams], session := Some s\<rparr>)"
  by (simp add: connect_def Let_def split: sum.splits)

text \<open>The database after the registrations made by a run of the loop.\<close>

fun register_all ::
  "'f lib \<Rightarrow> 'f discovery_env \<Rightarrow> translator \<Rightarrow> nat \<Rightarrow> 'f tool list \<Rightarrow> 'f db \<Rightarrow> 'f db" where
  "register_all lib env self i [] db = db"
| "register_all lib env self i (t # ts) db =
     register_all lib env self (Suc i) ts (register_tool lib env self i t db)"

lemma get_tools_loop_all_translate:
  assumes "\<forall>t \<in> set ts. \<exists>a. perform_translation lib env self t = Inr a"
  shows "\<exists>adapters. list_all2 (\<lambda>t a. perform_translation lib env self t = Inr a) ts adapters
           \<and> get_tools_loop lib env self db_session i ts acc db
               = (Inr (acc @ adapters),
                  if db_session then register_all lib env self i ts db else db)"
  using assms
proof (induction ts arbitrary: i acc db)
  case Nil
  show ?case by simp
next
  case (Cons t ts)
  from Cons.prems obtain a where a: "perform_translation lib env self t = Inr a" by auto
  let ?db' = "if db_session then register_tool lib env self i t db else db"
  from Cons.prems have "\<forall>t \<in> set ts. \<exists>a. perform_translation lib env self t = Inr a" by simp
  from Cons.IH [OF this, of "Suc i" "acc @ [a]" ?db']
  obtain adapters where
    rel: "list_all2 (\<lambda>t a. perform_translation lib env self t = Inr a) ts adapters"
    and run: "get_tools_loop lib env self db_session (Suc i) ts (acc @ [a]) ?db'
        = (Inr ((acc @ [a]) @ adapters),
           if db_session then register_all lib env self (Suc i) ts ?db' else ?db')"
    by blast
  have "list_all2 (\<lambda>t a. perform_translation lib env self t = Inr a) (t # ts) (a # adapters)"
    using a rel by simp
  moreover have "get_tools_loop lib env self db_session i (t # ts) acc db
      = (Inr (acc @ a # adapters),
         if db_session then register_all lib env self i (t # ts) db else db)"
    using a run by (simp add: Let_def)
  ultimately show ?case by blast
qed

lemma register_all_fault:
  "\<forall>k. i \<le> k \<and> k < i + length ts \<longrightarrow> query_fault env k \<noteq> None \<or> commit_fault env k \<noteq> None \<Longrightarrow>
   register_all lib env self i ts db = db"
proof (induction ts arbitrary: i)
  case Nil
  show ?case by simp
next
  case (Cons t ts)
  have "register_tool lib env self i t db = db"
    using Cons.prems by (intro register_tool_abandoned) simp
  moreover have "register_all lib env self (Suc i) ts db = db"
    using Cons.prems by (intro Cons.IH) simp
  ultimately show ?case by simp
qed

text \<open>
  The adapter a translation returns: the target framework's, under the tool's name and
  description, around the generated contract and the translator's session.
\<close>

lemma perform_translation_adapter:
  assumes "perform_translation lib env self t = Inr a"
  shows "\<exists>model.
           generate_pydantic_model (create_model_raises lib) (capitalize lib) (mcp_name t)
             (inputSchema t) = Inr model
         \<and> a = \<lparr>adapter_framework = target_framework self, adapter_name = mcp_name t,
                adapter_description =
                  description_or (mcp_description t)
                    ((if target_framework self = ''autogen'' then ''Tool ''
                      else ''Tool to execute '') @ mcp_name t),
                args_schema = model, adapter_session = session self\<rparr>"
  using assms
  by (auto simp: perform_translation_def generate_crewai_tool_def generate_langchain_tool_def
      generate_autogen_tool_def split: if_splits sum.splits)

text \<open>
  Registration is best-effort in the cases the code handles. Let the translator be
  connected, let the set-up of the database session end with a session or with the
  handled \<open>ImportError\<close>, and let every listed tool be translatable for the target
  framework. Then, whichever registrations fail, \<open>get_tools\<close> returns one adapter per
  tool, in order, each around the tool's contract and the session. When the registry is
  unavailable or every registration raises, the database is unchanged. An adapter whose
  name is the tool name of no manifest still returns the composed text to its caller,
  and every record it submits is rejected by \<open>create_log\<close> with the 404 error.
\<close>

lemma registration_is_best_effort:
  assumes "session self = Some s"
    and "list_tools env = Inr ts"
    and "\<forall>t \<in> set ts. \<exists>a. perform_translation lib env self t = Inr a"
    and "\<forall>e. db_setup env \<noteq> Db_Setup_Raises e"
  shows "\<exists>adapters.
           fst (get_tools lib env self db) = Inr adapters
         \<and> list_all2 (\<lambda>t a. \<exists>model.
               generate_pydantic_model (create_model_raises lib) (capitalize lib) (mcp_name t)
                 (inputSchema t) = Inr model
               \<and> a = \<lparr>adapter_framework = target_framework self, adapter_name = mcp_name t,
                      adapter_description =
                        description_or (mcp_description t)
                          ((if target_framework self = ''autogen'' then ''Tool ''
                            else ''Tool to execute '') @ mcp_name t),
                      args_schema = model, adapter_session = Some s\<rparr>) ts adapters
         \<and> (db_setup env = Db_Import_Error \<or>
              (\<forall>i < length ts. query_fault env i \<noteq> None \<or> commit_fault env i \<noteq> None)
              \<longrightarrow> snd (get_tools lib env self db) = db)
         \<and> (\<forall>a \<in> set adapters. \<forall>run \<in> adapter_entry_points.
               \<forall>ienv kwargs result new_id now db'.
               adapter_name a \<notin> tool_name ` set (registry db') \<and>
               call_tool ienv (adapter_name a) kwargs = Inr result \<longrightarrow>
               fst (run lib ienv a kwargs) = Inr (snd (classify lib result)) \<and>
               (\<forall>p \<in> set (snd (run lib ienv a kwargs)).
                  create_log new_id now p db'
                    = (Inl (HTTPException 404
                         (''Tool '' @ adapter_name a @ '' not found in registry'')), db')))"
proof -
  from get_tools_loop_all_translate [OF assms(3)]
  obtain adapters where
    rel: "list_all2 (\<lambda>t a. perform_translation lib env self t = Inr a) ts adapters"
    and run: "get_tools_loop lib env self (db_setup env = Db_Session_Open) 0 ts [] db
        = (Inr ([] @ adapters),
           if db_setup env = Db_Session_Open then register_all lib env self 0 ts db else db)"
    by blast
  have session_or_none: "db_setup env = Db_Import_Error \<or> db_setup env = Db_Session_Open"
    using assms(4) by (cases "db_setup env") simp_all
  have gt: "get_tools lib env self db
      = (Inr adapters,
         if db_setup env = Db_Session_Open then register_all lib env self 0 ts db else db)"
    using assms(1,2) session_or_none run by (auto simp: get_tools_def)
  have all_fail: "register_all lib env self 0 ts db = db"
    if "\<forall>i < length ts. query_fault env i \<noteq> None \<or> commit_fault env i \<noteq> None"
    using that by (intro register_all_fault) simp
  have unchanged: "snd (get_tools lib env self db) = db"
    if "db_setup env = Db_Import_Error \<or>
        (\<forall>i < length ts. query_fault env i \<noteq> None \<or> commit_fault env i \<noteq> None)"
    using that all_fail by (auto simp: gt)
  have built: "list_all2 (\<lambda>t a. \<exists>model.
               generate_pydantic_model (create_model_raises lib) (capitalize lib) (mcp_name t)
                 (inputSchema t) = Inr model
               \<and> a = \<lparr>adapter_framework = target_framework self, adapter_name = mcp_name t,
                      adapter_description =
                        description_or (mcp_description t)
                          ((if target_framework self = ''autogen'' then ''Tool ''
                            else ''Tool to execute '') @ mcp_name t),
                      args_schema = model, adapter_session = Some s\<rparr>) ts adapters"
    using rel
  proof (rule list.rel_mono_strong)
    fix t a assume "perform_translation lib env self t = Inr a"
    from perform_translation_adapter [OF this] assms(1)
    show "\<exists>model.
               generate_pydantic_model (create_model_raises lib) (capitalize lib) (mcp_name t)
                 (inputSchema t) = Inr model
               \<and> a = \<lparr>adapter_framework = target_framework self, adapter_name = mcp_name t,
                      adapter_description =
                        description_or (mcp_description t)
                          ((if target_framework self = ''autogen'' then ''Tool ''
                            else ''Tool to execute '') @ mcp_name t),
                      args_schema = model, adapter_session = Some s\<rparr>"
      by simp
  qed
  have logs: "fst (run lib ienv a kwargs) = Inr (snd (classify lib result)) \<and>
       (\<forall>p \<in> set (snd (run lib ienv a kwargs)).
          create_log new_id now p db'
            = (Inl (HTTPException 404 (''Tool '' @ adapter_name a @ '' not found in registry'')), db'))"
    if "run \<in> adapter_entry_points"
      and "adapter_name a \<notin> tool_name ` set (registry db')"
      and "call_tool ienv (adapter_name a) kwargs = Inr result"
    for a :: "'a adapter" and run ienv kwargs result new_id now db'
    using that entry_point_result [OF that(1,3), of lib]
    by (auto simp: create_log_unknown)
  have "fst (get_tools lib env self db) = Inr adapters" by (simp add: gt)
  with built unchanged logs show ?thesis by blast
qed

section \<open>Worked examples\<close>

text \<open>
  Concrete values for the examples: the provider of the tests with its tool
  \<open>calculate_sum\<close>, a connected CrewAI translator, an empty database, and stand-ins for
  the library functions. The stand-in for \<open>create_model\<close> refuses a field name with a
  leading underscore, as pydantic 2 does; the stand-ins for the \<open>repr\<close> of a content item
  follow the \<open>mcp\<close> package's \<open>TextContent\<close> and \<open>ImageContent\<close>.
\<close>

definition pydantic_refuses :: "string \<Rightarrow> (string \<times> 'f field_def) list \<Rightarrow> py_error option" where
  "pydantic_refuses name fields' =
     (case find (\<lambda>f. take 1 (fst f) = ''_'') fields' of
        Some f \<Rightarrow>
          Some (NameError (''Fields must not use names with leading underscores; e.g., use ''
                           @ quoted (drop 1 (fst f)) @ '' instead of '' @ quoted (fst f) @ ''.''))
      | None \<Rightarrow> None)"

definition demo_lib :: "string lib" where
  "demo_lib =
     \<lparr>sha256_hexdigest = (\<lambda>b. b), float_repr = (\<lambda>x. x), capitalize = (\<lambda>s. s),
      create_model_raises = pydantic_refuses, schema_json = model_name,
      repr_text_rest = (\<lambda>c. '', annotations=None, meta=None''),
      repr_non_text = (\<lambda>c. ''ImageContent(type='' @ py_repr (content_type c) @ '')'')\<rparr>"

definition calculate_sum :: "string tool" where
  "calculate_sum = \<lparr>mcp_name = ''calculate_sum'',
                    mcp_description = Some ''Calculates the sum of two integers.'',
                    inputSchema = sum_schema\<rparr>"

definition demo_env :: "string discovery_env" where
  "demo_env = \<lparr>list_tools = Inr [calculate_sum], db_setup = Db_Session_Open,
               query_fault = (\<lambda>i. None), commit_fault = (\<lambda>i. None),
               uuid4 = (\<lambda>i. 100 + i), utcnow = (\<lambda>i. 7),
               langchain_core_installed = True, autogen_core_installed = True\<rparr>"

definition crew_translator :: translator where
  "crew_translator =
     \<lparr>target_framework = ''crewai'',
      server_params = Some \<lparr>command = ''python'', args = [''dummy_mcp_server.py'']\<rparr>,
      exit_stack = Some [2, 1], session = Some 2,
      stdio_ctx = Some \<lparr>command = ''python'', args = [''dummy_mcp_server.py'']\<rparr>\<rparr>"

definition empty_db :: "string db" where
  "empty_db = \<lparr>registry = [], logs = []\<rparr>"

definition sum_model :: "string pydantic_model" where
  "sum_model =
     \<lparr>model_name = ''calculate_sumInput'',
      model_fields =
        [(''a'', \<lparr>annotation = Plain PyInt, default_value = Ellipsis,
                  field_description = JStr []\<rparr>),
         (''b'', \<lparr>annotation = Plain PyInt, default_value = Ellipsis,
                  field_description = JStr []\<rparr>)]\<rparr>"

lemma sum_model_generated:
  "generate_pydantic_model (create_model_raises demo_lib) (capitalize demo_lib)
     (mcp_name calculate_sum) (inputSchema calculate_sum) = Inr sum_model"
  by (simp add: demo_lib_def calculate_sum_def sum_schema_def sum_model_def
      generate_pydantic_model_def py_get_def dict_get_def json_schema_to_pydantic_type_def
      type_mapping_get_def type_mapping_def py_in_def pydantic_refuses_def)

lemma register_twice_ids:
  "map reg_id (registry (register_tool demo_lib demo_env crew_translator 1 calculate_sum
                 (register_tool demo_lib demo_env crew_translator 0 calculate_sum empty_db)))
     = [100]"
  by (simp add: register_tool_def Let_def demo_env_def crew_translator_def empty_db_def
      sum_model_generated [simplified] demo_lib_def calculate_sum_def
      generate_manifest_hash_def sum_schema_def generate_pydantic_model_def
      py_get_def dict_get_def json_schema_to_pydantic_type_def type_mapping_get_def
      type_mapping_def py_in_def pydantic_refuses_def)

theorem register_tool_idempotent_witness:
  "distinct (map manifest_hash (registry empty_db))
   \<and> query_fault demo_env 0 = None \<and> commit_fault demo_env 0 = None
   \<and> (\<exists>r. find (\<lambda>r. manifest_hash r = fingerprint_of demo_lib crew_translator calculate_sum)
             (registry (register_tool demo_lib demo_env crew_translator 0 calculate_sum empty_db))
            = Some r
          \<and> register_tool demo_lib demo_env crew_translator 1 calculate_sum
                (register_tool demo_lib demo_env crew_translator 0 calculate_sum empty_db)
              = register_tool demo_lib demo_env crew_translator 0 calculate_sum empty_db
          \<and> filter (\<lambda>r. manifest_hash r = fingerprint_of demo_lib crew_translator calculate_sum)
               (registry (register_tool demo_lib demo_env crew_translator 1 calculate_sum
                   (register_tool demo_lib demo_env crew_translator 0 calculate_sum empty_db)))
              = [r])
   \<and> map reg_id (registry (register_tool demo_lib demo_env crew_translator 1 calculate_sum
                 (register_tool demo_lib demo_env crew_translator 0 calculate_sum empty_db)))
       = [100]"
proof -
  have d: "distinct (map manifest_hash (registry empty_db))" by (simp add: empty_db_def)
  have q: "query_fault demo_env 0 = None" and c: "commit_fault demo_env 0 = None"
    by (simp_all add: demo_env_def)
  note inst = register_tool_idempotent [OF d, of demo_lib crew_translator calculate_sum
      demo_env 1 demo_env 0]
  from inst sum_model_generated q c obtain r where
    r: "find (\<lambda>r. manifest_hash r = fingerprint_of demo_lib crew_translator calculate_sum)
          (registry (register_tool demo_lib demo_env crew_translator 0 calculate_sum empty_db))
        = Some r"
    by blast
  from inst r have idem:
    "register_tool demo_lib demo_env crew_translator 1 calculate_sum
        (register_tool demo_lib demo_env crew_translator 0 calculate_sum empty_db)
      = register_tool demo_lib demo_env crew_translator 0 calculate_sum empty_db"
    and one: "filter (\<lambda>r. manifest_hash r = fingerprint_of demo_lib crew_translator calculate_sum)
          (registry (register_tool demo_lib demo_env crew_translator 1 calculate_sum
              (register_tool demo_lib demo_env crew_translator 0 calculate_sum empty_db)))
        = [r]"
    by blast+
  have "\<exists>r. find (\<lambda>r. manifest_hash r = fingerprint_of demo_lib crew_translator calculate_sum)
             (registry (register_tool demo_lib demo_env crew_translator 0 calculate_sum empty_db))
            = Some r
          \<and> register_tool demo_lib demo_env crew_translator 1 calculate_sum
                (register_tool demo_lib demo_env crew_translator 0 calculate_sum empty_db)
              = register_tool demo_lib demo_env crew_translator 0 calculate_sum empty_db
          \<and> filter (\<lambda>r. manifest_hash r = fingerprint_of demo_lib crew_translator calculate_sum)
               (registry (register_tool demo_lib demo_env crew_translator 1 calculate_sum
                   (register_tool demo_lib demo_env crew_translator 0 calculate_sum empty_db)))
              = [r]"
    by (intro exI [of _ r] conjI) (rule r, rule idem, rule one)
  with d q c register_twice_ids show ?thesis by (intro conjI)
qed

text \<open>
  A tool with a property named \<open>_x\<close>, whose model \<open>create_model\<close> refuses, and a
  discovery during which every commit to the registry raises. In both the registration
  is abandoned in each run, and no manifest with the tool's fingerprint exists after two
  runs.
\<close>

definition private_field_tool :: "string tool" where
  "private_field_tool =
     \<lparr>mcp_name = ''lookup'', mcp_description = None,
      inputSchema = JObj [(''properties'', JObj [(''_x'', JObj [(''type'', JStr ''string'')])])]\<rparr>"

definition locked_db_env :: "string discovery_env" where
  "locked_db_env = demo_env\<lparr>commit_fault := (\<lambda>i. Some (Exception ''database is locked''))\<rparr>"

theorem register_tool_no_manifest_counterexample:
  "filter (\<lambda>r. manifest_hash r = fingerprint_of demo_lib crew_translator private_field_tool)
     (registry (register_tool demo_lib demo_env crew_translator 1 private_field_tool
         (register_tool demo_lib demo_env crew_translator 0 private_field_tool empty_db))) = []
   \<and> filter (\<lambda>r. manifest_hash r = fingerprint_of demo_lib crew_translator calculate_sum)
       (registry (register_tool demo_lib locked_db_env crew_translator 1 calculate_sum
           (register_tool demo_lib locked_db_env crew_translator 0 calculate_sum empty_db))) = []"
proof -
  have refused: "generate_pydantic_model (create_model_raises demo_lib) (capitalize demo_lib)
      (mcp_name private_field_tool) (inputSchema private_field_tool)
    = Inl (NameError (''Fields must not use names with leading underscores; e.g., use ''
                      @ quoted ''x'' @ '' instead of '' @ quoted ''_x'' @ ''.''))"
    by (simp add: demo_lib_def private_field_tool_def generate_pydantic_model_def py_get_def
        dict_get_def json_schema_to_pydantic_type_def type_mapping_get_def type_mapping_def
        py_in_def pydantic_refuses_def)
  have a: "register_tool demo_lib demo_env crew_translator i private_field_tool empty_db = empty_db"
    for i
    using refused by (intro register_tool_abandoned) simp
  have b: "register_tool demo_lib locked_db_env crew_translator i calculate_sum empty_db = empty_db"
    for i
    by (intro register_tool_abandoned) (simp add: locked_db_env_def)
  show ?thesis by (simp add: a b) (simp add: empty_db_def)
qed

lemma private_field_tool_not_translated:
  "perform_translation demo_lib demo_env crew_translator private_field_tool
     = Inl (NameError (''Fields must not use names with leading underscores; e.g., use ''
                       @ quoted ''x'' @ '' instead of '' @ quoted ''_x'' @ ''.''))"
  by (simp add: perform_translation_def generate_crewai_tool_def crew_translator_def
      demo_lib_def private_field_tool_def generate_pydantic_model_def py_get_def
      dict_get_def json_schema_to_pydantic_type_def type_mapping_get_def type_mapping_def
      py_in_def pydantic_refuses_def)



definition twelve :: call_tool_result where
  "twelve =
     \<lparr>isError = False,
      content = [\<lparr>content_type = ''text'', content_text = ''1''\<rparr>,
                 \<lparr>content_type = ''image'', content_text = []\<rparr>,
                 \<lparr>content_type = ''text'', content_text = ''2''\<rparr>]\<rparr>"

definition sum_adapter :: "string adapter" where
  "sum_adapter =
     \<lparr>adapter_framework = ''crewai'', adapter_name = ''calculate_sum'',
      adapter_description = ''Calculates the sum of two integers.'',
      args_schema = sum_model, adapter_session = Some 2\<rparr>"

definition sum_kwargs :: "string json" where
  "sum_kwargs = JObj [(''a'', JInt 5), (''b'', JInt 7)]"



definition healthy_provider :: "string invocation_env" where
  "healthy_provider =
     \<lparr>call_tool = (\<lambda>n k. Inr twelve), json_roundtrip = Inr,
      client_post = (\<lambda>p. Inr ())\<rparr>"

definition unreachable_sink :: "string invocation_env" where
  "unreachable_sink =
     \<lparr>call_tool = (\<lambda>n k. Inr twelve), json_roundtrip = Inr,
      client_post = (\<lambda>p. Inl (Exception ''All connection attempts failed''))\<rparr>"






theorem logging_failure_never_reaches_caller_witness:
  "autogen_run \<in> (adapter_entry_points :: (string lib \<Rightarrow> _) set)
   \<and> call_tool unreachable_sink = call_tool healthy_provider
   \<and> client_post unreachable_sink \<noteq> client_post healthy_provider
   \<and> fst (autogen_run demo_lib unreachable_sink sum_adapter sum_kwargs)
       = fst (autogen_run demo_lib healthy_provider sum_adapter sum_kwargs)
   \<and> fst (autogen_run demo_lib unreachable_sink sum_adapter sum_kwargs) = Inr ''12''"
proof -
  have m: "autogen_run \<in> (adapter_entry_points :: (string lib \<Rightarrow> _) set)"
    by (simp add: adapter_entry_points_def)
  have c: "call_tool unreachable_sink = call_tool healthy_provider"
    by (simp add: unreachable_sink_def healthy_provider_def)
  have d: "client_post unreachable_sink \<noteq> client_post healthy_provider"
    by (simp add: unreachable_sink_def healthy_provider_def fun_eq_iff)
  have r: "call_tool healthy_provider (adapter_name sum_adapter) sum_kwargs = Inr twelve"
    by (simp add: healthy_provider_def)
  have v: "snd (classify demo_lib twelve) = ''12''"
    by (simp add: classify_def twelve_def)
  show ?thesis
    using logging_failure_never_reaches_caller [OF m c, of demo_lib sum_adapter sum_kwargs] m c d r v
    by auto
qed

text \<open>
  A registry in which two providers expose a tool named \<open>search\<close>, and requests to
  record an invocation of \<open>search\<close> and of the unregistered \<open>get_weather\<close>.
\<close>

definition search_row :: "nat \<Rightarrow> string \<Rightarrow> string \<Rightarrow> string ATPToolRegistry" where
  "search_row rid server fingerprint =
     \<lparr>reg_id = rid, mcp_server_name = server, tool_name = ''search'',
      manifest_hash = fingerprint, raw_mcp_schema = JObj [],
      pydantic_schema_code = None, success_rate = 1, last_anomaly_log = None,
      created_at = 0\<rparr>"

definition two_providers_db :: "string db" where
  "two_providers_db =
     \<lparr>registry = [search_row 100 ''python'' ''f1'', search_row 101 ''node'' ''f2''], logs = []\<rparr>"

definition search_request :: "string \<Rightarrow> string LogCreate" where
  "search_request framework =
     \<lparr>req_tool_name = ''search'', req_agent_framework = framework,
      req_input_arguments = JObj [], req_execution_result = ''ok'', req_is_anomaly = False\<rparr>"

definition weather_request :: "string LogCreate" where
  "weather_request =
     \<lparr>req_tool_name = ''get_weather'', req_agent_framework = ''crewai'',
      req_input_arguments = JObj [(''location'', JStr ''Seattle'')],
      req_execution_result = ''sunny'', req_is_anomaly = False\<rparr>"

theorem create_log_rejects_unknown_tool_witness:
  "req_tool_name weather_request \<notin> tool_name ` set (registry two_providers_db)
   \<and> create_log 5 9 weather_request two_providers_db
       = (Inl (HTTPException 404 ''Tool get_weather not found in registry''), two_providers_db)"
proof -
  have h: "req_tool_name weather_request \<notin> tool_name ` set (registry two_providers_db)"
    by (simp add: weather_request_def two_providers_db_def search_row_def)
  have n: "req_tool_name weather_request = ''get_weather''"
    by (simp add: weather_request_def)
  show ?thesis
    using create_log_rejects_unknown_tool [OF h, of 5 9] h n by simp
qed

theorem create_log_attaches_by_tool_name_witness:
  "fst (create_log 5 9 (search_request ''crewai'') two_providers_db) = Inr 5
   \<and> map tool_id (logs (snd (create_log 6 10 (search_request ''langchain'')
                               (snd (create_log 5 9 (search_request ''crewai'') two_providers_db)))))
       = [100, 100]
   \<and> (\<exists>before t rest.
         registry two_providers_db = before @ t # rest
       \<and> (\<forall>r \<in> set before. tool_name r \<noteq> ''search'') \<and> tool_name t = ''search''
       \<and> map tool_id (logs (snd (create_log 5 9 (search_request ''crewai'') two_providers_db)))
           = [reg_id t])"
proof -
  have ok: "fst (create_log 5 9 (search_request ''crewai'') two_providers_db) = Inr 5"
    by (simp add: create_log_def search_request_def two_providers_db_def search_row_def)
  have ids: "map tool_id (logs (snd (create_log 6 10 (search_request ''langchain'')
                               (snd (create_log 5 9 (search_request ''crewai'') two_providers_db)))))
       = [100, 100]"
    by (simp add: create_log_def search_request_def two_providers_db_def search_row_def)
  have n: "req_tool_name (search_request ''crewai'') = ''search''"
    by (simp add: search_request_def)
  have l: "logs two_providers_db = []" by (simp add: two_providers_db_def)
  from create_log_attaches_by_tool_name [OF ok]
  obtain before t rest where
    "registry two_providers_db = before @ t # rest"
    "\<forall>r \<in> set before. tool_name r \<noteq> req_tool_name (search_request ''crewai'')"
    "tool_name t = req_tool_name (search_request ''crewai'')"
    "snd (create_log 5 9 (search_request ''crewai'') two_providers_db)
       = two_providers_db\<lparr>logs := logs two_providers_db @
           [\<lparr>log_id = 5, tool_id = reg_id t,
             agent_framework = req_agent_framework (search_request ''crewai''),
             input_arguments = req_input_arguments (search_request ''crewai''),
             execution_result = Some (req_execution_result (search_request ''crewai'')),
             is_anomaly = req_is_anomaly (search_request ''crewai''), timestamp = 9\<rparr>]\<rparr>"
    by blast
  then have "registry two_providers_db = before @ t # rest
       \<and> (\<forall>r \<in> set before. tool_name r \<noteq> ''search'') \<and> tool_name t = ''search''
       \<and> map tool_id (logs (snd (create_log 5 9 (search_request ''crewai'') two_providers_db)))
           = [reg_id t]"
    using n l by simp
  then have "\<exists>before t rest.
         registry two_providers_db = before @ t # rest
       \<and> (\<forall>r \<in> set before. tool_name r \<noteq> ''search'') \<and> tool_name t = ''search''
       \<and> map tool_id (logs (snd (create_log 5 9 (search_request ''crewai'') two_providers_db)))
           = [reg_id t]"
    by (intro exI)
  with ok ids show ?thesis by (intro conjI)
qed

text \<open>
  A connected translator configured for a framework that is not supported, and a
  provider that lists no tool.
\<close>

definition unsupported :: translator where
  "unsupported = crew_translator\<lparr>target_framework := ''smolagents''\<rparr>"

definition no_tools_env :: "string discovery_env" where
  "no_tools_env = demo_env\<lparr>list_tools := Inr []\<rparr>"

text \<open>
  Claim C7. The claim wants adapter generation to raise for every translator whose target
  framework is not supported. The check is the last branch of the dispatch inside the
  loop over the listed tools: with a tool listed \<open>get_tools\<close> raises
  (\<open>unsupported_framework_raises_on_first_tool\<close>), but for a provider that lists no tool
  the loop body never runs, and \<open>get_tools\<close> returns the empty list without raising.
\<close>

theorem get_tools_unsupported_no_tools:
  "target_framework unsupported \<notin> supported_frameworks
   \<and> session unsupported = Some 2
   \<and> list_tools no_tools_env = Inr []
   \<and> get_tools demo_lib no_tools_env unsupported empty_db = (Inr [], empty_db)"
  by (simp add: unsupported_def crew_translator_def supported_frameworks_def no_tools_env_def
      demo_env_def get_tools_def)

lemma unsupported_framework_example:
  "fst (get_tools demo_lib demo_env unsupported empty_db)
     = Inl (ValueError ''Unsupported target framework: smolagents'')"
proof -
  have u: "target_framework unsupported \<notin> supported_frameworks"
    by (simp add: unsupported_def crew_translator_def supported_frameworks_def)
  have s: "session unsupported = Some 2" by (simp add: unsupported_def crew_translator_def)
  have l: "list_tools demo_env = Inr [calculate_sum]" by (simp add: demo_env_def)
  show ?thesis
    using unsupported_framework_raises_on_first_tool [OF u s l, of demo_lib empty_db]
    by (simp add: demo_env_def unsupported_def)
qed

text \<open>
  A second \<open>connect\<close>, to another provider: one whose channel can be established, one
  whose session cannot be entered.
\<close>

definition second_launch :: connect_env where
  "second_launch = \<lparr>enter_stdio_client = Inr 3, enter_client_session = Inr 4,
                    initialize = Inr ()\<rparr>"

definition refused_launch :: connect_env where
  "refused_launch = \<lparr>enter_stdio_client = Inr 3,
                     enter_client_session = Inl (Exception ''Connection closed''),
                     initialize = Inr ()\<rparr>"

definition other_server :: server_parameters where
  "other_server = \<lparr>command = ''node'', args = [''server.js'']\<rparr>"

theorem connect_while_connected_counterexample:
  "session crew_translator = Some 2 \<and> exit_stack crew_translator = Some [2, 1]
   \<and> fst (connect second_launch other_server crew_translator) = Inr ()
   \<and> session (snd (connect second_launch other_server crew_translator)) = Some 4
   \<and> exit_stack (snd (connect second_launch other_server crew_translator)) = Some [4, 3]"
  by (simp add: crew_translator_def second_launch_def connect_def Let_def)

theorem connect_replaces_channel_witness:
  "session crew_translator = Some 2
   \<and> enter_stdio_client second_launch = Inr 3 \<and> enter_client_session second_launch = Inr 4
   \<and> initialize second_launch = Inr ()
   \<and> connect second_launch other_server crew_translator
       = (Inr (), \<lparr>target_framework = ''crewai'', server_params = Some other_server,
                   exit_stack = Some [4, 3], session = Some 4, stdio_ctx = Some other_server\<rparr>)
   \<and> fst (connect refused_launch other_server crew_translator)
       = Inl (Exception ''Connection closed'')"
proof -
  have s: "session crew_translator = Some 2" by (simp add: crew_translator_def)
  have a: "enter_stdio_client second_launch = Inr 3"
    and b: "enter_client_session second_launch = Inr 4"
    and c: "initialize second_launch = Inr ()"
    by (simp_all add: second_launch_def)
  have r: "enter_stdio_client refused_launch = Inr 3"
    "enter_client_session refused_launch = Inl (Exception ''Connection closed'')"
    by (simp_all add: refused_launch_def)
  have "connect second_launch other_server crew_translator
       = (Inr (), \<lparr>target_framework = ''crewai'', server_params = Some other_server,
                   exit_stack = Some [4, 3], session = Some 4, stdio_ctx = Some other_server\<rparr>)"
    using connect_replaces_channel [of second_launch other_server crew_translator] a b c
    by (simp add: prod_eq_iff crew_translator_def)
  moreover have "fst (connect refused_launch other_server crew_translator)
       = Inl (Exception ''Connection closed'')"
    using connect_replaces_channel [of refused_launch other_server crew_translator] r
    by simp
  ultimately show ?thesis using s a b c by (intro conjI)
qed

text \<open>
  A discovery during which the database cannot be opened: \<open>init_db\<close> raises an
  exception that is not an \<open>ImportError\<close>.
\<close>

definition unopenable_db_env :: "string discovery_env" where
  "unopenable_db_env =
     demo_env\<lparr>db_setup :=
       Db_Setup_Raises (Exception ''(sqlite3.OperationalError) unable to open database file'')\<rparr>"

text \<open>
  Claim C9. The claim wants every discovered tool to get its adapter when persisting its
  manifest fails, the registry being unavailable or the insert raising. The code does so
  when the \<open>db\<close> module cannot be imported and when a registration raises
  (\<open>registration_is_best_effort\<close>). When the database itself cannot be opened, the
  exception of the set-up is not an \<open>ImportError\<close>: it is not caught, \<open>get_tools\<close> raises
  it before the first tool is translated, and no adapter is returned.
\<close>

theorem get_tools_unopenable_database:
  "session crew_translator = Some 2
   \<and> list_tools unopenable_db_env = Inr [calculate_sum]
   \<and> get_tools demo_lib unopenable_db_env crew_translator empty_db
       = (Inl (Exception ''(sqlite3.OperationalError) unable to open database file''), empty_db)"
  by (simp add: crew_translator_def unopenable_db_env_def demo_env_def get_tools_def)

lemma registration_is_best_effort_example:
  "\<exists>adapters. get_tools demo_lib locked_db_env crew_translator empty_db = (Inr adapters, empty_db)
     \<and> adapters = [\<lparr>adapter_framework = ''crewai'', adapter_name = ''calculate_sum'',
                     adapter_description = ''Calculates the sum of two integers.'',
                     args_schema = sum_model, adapter_session = Some 2\<rparr>]"
proof -
  have s: "session crew_translator = Some 2" by (simp add: crew_translator_def)
  have l: "list_tools locked_db_env = Inr [calculate_sum]"
    by (simp add: locked_db_env_def demo_env_def)
  have tr: "\<forall>t \<in> set [calculate_sum].
      \<exists>a. perform_translation demo_lib locked_db_env crew_translator t = Inr a"
    using sum_model_generated
    by (simp add: perform_translation_def generate_crewai_tool_def crew_translator_def)
  have d: "\<forall>e. db_setup locked_db_env \<noteq> Db_Setup_Raises e"
    by (simp add: locked_db_env_def demo_env_def)
  have allf: "\<forall>i < length [calculate_sum].
      query_fault locked_db_env i \<noteq> None \<or> commit_fault locked_db_env i \<noteq> None"
    by (simp add: locked_db_env_def)
  from registration_is_best_effort [OF s l tr d, of empty_db] allf
  obtain adapters where
    g: "fst (get_tools demo_lib locked_db_env crew_translator empty_db) = Inr adapters"
    and b: "list_all2 (\<lambda>t a. \<exists>model.
               generate_pydantic_model (create_model_raises demo_lib) (capitalize demo_lib)
                 (mcp_name t) (inputSchema t) = Inr model
               \<and> a = \<lparr>adapter_framework = target_framework crew_translator,
                      adapter_name = mcp_name t,
                      adapter_description =
                        description_or (mcp_description t)
                          ((if target_framework crew_translator = ''autogen'' then ''Tool ''
                            else ''Tool to execute '') @ mcp_name t),
                      args_schema = model, adapter_session = Some 2\<rparr>) [calculate_sum] adapters"
    and u: "snd (get_tools demo_lib locked_db_env crew_translator empty_db) = empty_db"
    by blast
  from b obtain a where a: "adapters = [a]"
    and "\<exists>model.
               generate_pydantic_model (create_model_raises demo_lib) (capitalize demo_lib)
                 (mcp_name calculate_sum) (inputSchema calculate_sum) = Inr model
               \<and> a = \<lparr>adapter_framework = target_framework crew_translator,
                      adapter_name = mcp_name calculate_sum,
                      adapter_description =
                        description_or (mcp_description calculate_sum)
                          ((if target_framework crew_translator = ''autogen'' then ''Tool ''
                            else ''Tool to execute '') @ mcp_name calculate_sum),
                      args_schema = model, adapter_session = Some 2\<rparr>"
    by (auto simp: list_all2_Cons1)
  then have "a = \<lparr>adapter_framework = ''crewai'', adapter_name = ''calculate_sum'',
                     adapter_description = ''Calculates the sum of two integers.'',
                     args_schema = sum_model, adapter_session = Some 2\<rparr>"
    using sum_model_generated
    by (auto simp: crew_translator_def calculate_sum_def description_or_def)
  with a g u show ?thesis by (simp add: prod_eq_iff)
qed

end
